theory Spec2Isabelle
  imports Complex_Main "HOL-Library.Sublist" "HOL-Library.Log_Nat"
begin

section \<open>JavaScript values\<close>

subsection \<open>Strings\<close>

text \<open>
  A JavaScript string is a sequence of UTF-16 code units. It is modelled as the list of
  its code units, each a natural number; \<open>js ''abc''\<close> is the string with the code
  units of the ASCII literal. (HOL's \<open>char\<close> has eight bits, and a
  unicode escape in a JSON text can name a code unit above 255, so \<open>char list\<close> would
  not hold every string the parser can produce.)
\<close>

type_synonym jsstring = "nat list"

definition js :: "string \<Rightarrow> jsstring" where
  "js s = map of_char s"

text \<open>\<open>s.includes(p)\<close>: \<open>p\<close> occurs in \<open>s\<close> as a contiguous run.\<close>

fun str_includes :: "jsstring \<Rightarrow> jsstring \<Rightarrow> bool" where
  "str_includes [] p = (p = [])"
| "str_includes (c # cs) p = (prefix p (c # cs) \<or> str_includes cs p)"

text \<open>\<open>s.split(':')[0]\<close>: the part of \<open>s\<close> before its first colon (code unit 58).\<close>

definition split_colon_first :: "jsstring \<Rightarrow> jsstring" where
  "split_colon_first s = takeWhile (\<lambda>c. c \<noteq> 58) s"

text \<open>
  \<open>toLowerCase\<close> and \<open>toUpperCase\<close>. The program compares their results only with
  ASCII names: the provider names (none has a \<open>k\<close>) and the four severity names (none
  has an \<open>S\<close> or an \<open>F\<close>). So they are modelled on the code units that can reach
  such a name: the Basic Latin letters and, for \<open>toUpperCase\<close>, the dotless i (U+0131,
  whose upper case is \<open>I\<close>). Every other code unit that JavaScript maps goes to
  something with a code unit outside ASCII, or with \<open>k\<close>, \<open>S\<close> or \<open>F\<close>, which equals
  none of the names; it is left unchanged here, which equals none of them either.
\<close>

definition lower_unit :: "nat \<Rightarrow> nat" where
  "lower_unit c = (if 65 \<le> c \<and> c \<le> 90 then c + 32 else c)"

definition upper_unit :: "nat \<Rightarrow> nat" where
  "upper_unit c = (if 97 \<le> c \<and> c \<le> 122 then c - 32 else if c = 305 then 73 else c)"

definition toLowerCase :: "jsstring \<Rightarrow> jsstring" where
  "toLowerCase s = map lower_unit s"

definition toUpperCase :: "jsstring \<Rightarrow> jsstring" where
  "toUpperCase s = map upper_unit s"

subsection \<open>Property reads on object literals\<close>

text \<open>
  \<open>TABLE[key]\<close> on an object literal finds the literal's own property, or else a member
  of \<open>Object.prototype\<close> (\<open>TABLE['constructor']\<close> is the function \<open>Object\<close>), or
  else is \<open>undefined\<close>. The inherited members are functions or objects: truthy, with no
  numeric fields, and \<open>NaN\<close> when converted to a number. \<open>Inherited k\<close> is the member
  named \<open>k\<close>.
\<close>

datatype 'a property = Undefined | Own 'a | Inherited jsstring

definition object_prototype_names :: "jsstring list" where
  "object_prototype_names = map js
     [''constructor'', ''__defineGetter__'', ''__defineSetter__'', ''hasOwnProperty'',
      ''__lookupGetter__'', ''__lookupSetter__'', ''isPrototypeOf'',
      ''propertyIsEnumerable'', ''toString'', ''valueOf'', ''__proto__'',
      ''toLocaleString'']"

definition obj_get :: "(jsstring \<times> 'a) list \<Rightarrow> jsstring \<Rightarrow> 'a property" where
  "obj_get tbl k =
     (case map_of tbl k of
        Some v \<Rightarrow> Own v
      | None \<Rightarrow> if k \<in> set object_prototype_names then Inherited k else Undefined)"

subsection \<open>Numbers\<close>

text \<open>
  Prices, token counts and costs are JavaScript numbers: IEEE 754 doubles. A finite
  double is given by its value, a rational; the sign of zero is not kept (nothing here
  divides by a computed number or prints a zero's sign).
\<close>

datatype number = Fin rat | PosInfinity | NegInfinity | NaN

text \<open>The binary exponent of a rational other than zero: the \<open>e\<close> with
  \<open>2^e \<le> |r| < 2^(e+1)\<close>.\<close>

definition exponent :: "rat \<Rightarrow> int" where
  "exponent r =
     (if 1 \<le> \<bar>r\<bar> then bitlen \<lfloor>\<bar>r\<bar>\<rfloor> - 1 else - bitlen (\<lceil>1 / \<bar>r\<bar>\<rceil> - 1))"

text \<open>Rounding to the nearest integer, a tie going to the even one.\<close>

definition round_half_even :: "rat \<Rightarrow> int" where
  "round_half_even r =
     (let f = \<lfloor>r\<rfloor>; d = r - of_int f in
      if d < 1 / 2 then f else if 1 / 2 < d then f + 1 else if even f then f else f + 1)"

text \<open>
  The double nearest to a rational, a tie going to the even significand: 53 bits of
  significand above the exponent \<open>-1022\<close>, multiples of \<open>2^-1074\<close> below it, and an
  infinity when the rounded value reaches \<open>2^1024\<close>. Every arithmetic operation on
  doubles is the exact operation followed by this rounding.
\<close>

definition round_double :: "rat \<Rightarrow> number" where
  "round_double r =
     (if r = 0 then Fin 0
      else
        let e = max (exponent r) (- 1022);
            ulp = 2 powi (e - 52);
            v = of_int (round_half_even (r / ulp)) * ulp
        in if 2 ^ 1024 \<le> v then PosInfinity
           else if v \<le> - (2 ^ 1024) then NegInfinity
           else Fin v)"

text \<open>The infinity with the sign of a rational, \<open>NaN\<close> for zero: what an infinity
  times a finite number is.\<close>

definition infinity_of :: "rat \<Rightarrow> number" where
  "infinity_of x = (if x = 0 then NaN else if 0 < x then PosInfinity else NegInfinity)"

text \<open>\<open>a * b\<close>.\<close>

fun times_number :: "number \<Rightarrow> number \<Rightarrow> number" where
  "times_number NaN b = NaN"
| "times_number a NaN = NaN"
| "times_number (Fin x) (Fin y) = round_double (x * y)"
| "times_number (Fin x) PosInfinity = infinity_of x"
| "times_number (Fin x) NegInfinity = infinity_of (- x)"
| "times_number PosInfinity (Fin y) = infinity_of y"
| "times_number NegInfinity (Fin y) = infinity_of (- y)"
| "times_number PosInfinity PosInfinity = PosInfinity"
| "times_number PosInfinity NegInfinity = NegInfinity"
| "times_number NegInfinity PosInfinity = NegInfinity"
| "times_number NegInfinity NegInfinity = PosInfinity"

text \<open>\<open>a + b\<close>.\<close>

fun plus_number :: "number \<Rightarrow> number \<Rightarrow> number" where
  "plus_number NaN b = NaN"
| "plus_number a NaN = NaN"
| "plus_number (Fin x) (Fin y) = round_double (x + y)"
| "plus_number PosInfinity NegInfinity = NaN"
| "plus_number NegInfinity PosInfinity = NaN"
| "plus_number PosInfinity b = PosInfinity"
| "plus_number NegInfinity b = NegInfinity"
| "plus_number (Fin x) b = b"

text \<open>\<open>a / 1_000_000\<close>.\<close>

fun per_million :: "number \<Rightarrow> number" where
  "per_million (Fin x) = round_double (x / 1000000)"
| "per_million a = a"

text \<open>Truthiness of a number: neither zero nor \<open>NaN\<close>.\<close>

fun truthy_number :: "number \<Rightarrow> bool" where
  "truthy_number (Fin x) = (x \<noteq> 0)"
| "truthy_number NaN = False"
| "truthy_number a = True"

section \<open>Pricing model\<close>

text \<open>A pricing entry \<open>{input, output, cache_write, cache_read}\<close>, in USD per million
  tokens; the cache rates are optional. A field holds the decimal literal the table
  writes; the number it denotes is the double nearest to it (\<open>number_of_literal\<close> below).\<close>

record pricing =
  input_price :: rat
  output_price :: rat
  cache_write_price :: "rat option"
  cache_read_price :: "rat option"

text \<open>What \<open>getModelPricing\<close> returns: an entry of the table, or (for a model name
  that is a member name of \<open>Object.prototype\<close>) that member, which is no entry.\<close>

datatype prices = Rates pricing | PrototypeMember

definition sonnet_4_5 :: pricing where
  "sonnet_4_5 = \<lparr>input_price = 3, output_price = 15, cache_write_price = Some 6, cache_read_price = Some (3 / 10)\<rparr>"

definition opus_4_5 :: pricing where
  "opus_4_5 = \<lparr>input_price = 15, output_price = 75, cache_write_price = Some 30, cache_read_price = Some (3 / 2)\<rparr>"

definition haiku_4_5 :: pricing where
  "haiku_4_5 = \<lparr>input_price = 8 / 10, output_price = 4, cache_write_price = Some (16 / 10),
                 cache_read_price = Some (8 / 100)\<rparr>"

definition gpt_4_turbo :: pricing where
  "gpt_4_turbo = \<lparr>input_price = 10, output_price = 30, cache_write_price = None, cache_read_price = None\<rparr>"

definition gpt_4 :: pricing where
  "gpt_4 = \<lparr>input_price = 30, output_price = 60, cache_write_price = None, cache_read_price = None\<rparr>"

definition gpt_3_5_turbo :: pricing where
  "gpt_3_5_turbo = \<lparr>input_price = 1 / 2, output_price = 3 / 2, cache_write_price = None, cache_read_price = None\<rparr>"

definition gemini_1_5_pro :: pricing where
  "gemini_1_5_pro = \<lparr>input_price = 7 / 2, output_price = 21 / 2, cache_write_price = None, cache_read_price = None\<rparr>"

definition gemini_1_5_flash :: pricing where
  "gemini_1_5_flash = \<lparr>input_price = 35 / 100, output_price = 105 / 100, cache_write_price = None,
                        cache_read_price = None\<rparr>"

definition gemini_pro :: pricing where
  "gemini_pro = \<lparr>input_price = 1 / 2, output_price = 3 / 2, cache_write_price = None, cache_read_price = None\<rparr>"

definition ANTHROPIC_PRICING :: "(jsstring \<times> pricing) list" where
  "ANTHROPIC_PRICING =
     [(js ''claude-sonnet-4-5-20250929'', sonnet_4_5),
      (js ''claude-opus-4-5-20251101'', opus_4_5),
      (js ''claude-haiku-4-5-20250101'', haiku_4_5),
      (js ''claude-3-5-sonnet-20241022'', sonnet_4_5),
      (js ''claude-3-5-haiku-20241022'', haiku_4_5)]"

definition OPENAI_PRICING :: "(jsstring \<times> pricing) list" where
  "OPENAI_PRICING =
     [(js ''gpt-4-turbo-preview'', gpt_4_turbo),
      (js ''gpt-4-turbo'', gpt_4_turbo),
      (js ''gpt-4'', gpt_4),
      (js ''gpt-3.5-turbo'', gpt_3_5_turbo)]"

definition GOOGLE_PRICING :: "(jsstring \<times> pricing) list" where
  "GOOGLE_PRICING =
     [(js ''gemini-1.5-pro'', gemini_1_5_pro),
      (js ''gemini-1.5-flash'', gemini_1_5_flash),
      (js ''gemini-pro'', gemini_pro)]"

text \<open>\<open>if (TABLE[name]) return TABLE[name]\<close>: taken for an own entry and for an inherited
  member alike, both being truthy.\<close>

definition table_hit :: "(jsstring \<times> pricing) list \<Rightarrow> jsstring \<Rightarrow> prices option" where
  "table_hit tbl name =
     (case obj_get tbl name of
        Own p \<Rightarrow> Some (Rates p)
      | Inherited m \<Rightarrow> Some PrototypeMember
      | Undefined \<Rightarrow> None)"

text \<open>\<open>AnthropicProvider.getModelPricing\<close> (the warnings it logs are not modelled).\<close>

definition AnthropicProvider_getModelPricing :: "jsstring \<Rightarrow> prices" where
  "AnthropicProvider_getModelPricing modelName =
     (let normalizedName = split_colon_first modelName in
      case table_hit ANTHROPIC_PRICING normalizedName of
        Some r \<Rightarrow> r
      | None \<Rightarrow>
          if str_includes normalizedName (js ''opus'') then Rates opus_4_5
          else if str_includes normalizedName (js ''haiku'') then Rates haiku_4_5
          else if str_includes normalizedName (js ''sonnet'') then Rates sonnet_4_5
          else Rates sonnet_4_5)"

text \<open>\<open>OpenAIProvider.getModelPricing\<close>: the name is looked up as given.\<close>

definition OpenAIProvider_getModelPricing :: "jsstring \<Rightarrow> prices" where
  "OpenAIProvider_getModelPricing modelName =
     (case table_hit OPENAI_PRICING modelName of
        Some r \<Rightarrow> r
      | None \<Rightarrow>
          if str_includes modelName (js ''gpt-4-turbo'') then Rates gpt_4_turbo
          else if str_includes modelName (js ''gpt-4'') then Rates gpt_4
          else if str_includes modelName (js ''gpt-3.5'') then Rates gpt_3_5_turbo
          else Rates gpt_4_turbo)"

text \<open>\<open>GoogleProvider.getModelPricing\<close>: the name is looked up as given.\<close>

definition GoogleProvider_getModelPricing :: "jsstring \<Rightarrow> prices" where
  "GoogleProvider_getModelPricing modelName =
     (case table_hit GOOGLE_PRICING modelName of
        Some r \<Rightarrow> r
      | None \<Rightarrow>
          if str_includes modelName (js ''flash'') then Rates gemini_1_5_flash
          else if str_includes modelName (js ''1.5-pro'') then Rates gemini_1_5_pro
          else if str_includes modelName (js ''pro'') then Rates gemini_pro
          else Rates gemini_1_5_pro)"

text \<open>\<open>getModelPricing\<close> of \<open>review.js\<close>, over the three tables in turn.\<close>

definition getModelPricing :: "jsstring \<Rightarrow> prices" where
  "getModelPricing modelName =
     (let normalizedName = split_colon_first modelName in
      case table_hit ANTHROPIC_PRICING normalizedName of
        Some r \<Rightarrow> r
      | None \<Rightarrow>
     (case table_hit OPENAI_PRICING normalizedName of
        Some r \<Rightarrow> r
      | None \<Rightarrow>
     (case table_hit GOOGLE_PRICING normalizedName of
        Some r \<Rightarrow> r
      | None \<Rightarrow>
          if str_includes normalizedName (js ''claude'') \<or> str_includes normalizedName (js ''opus'')
             \<or> str_includes normalizedName (js ''sonnet'') \<or> str_includes normalizedName (js ''haiku'')
          then (if str_includes normalizedName (js ''opus'') then Rates opus_4_5
                else if str_includes normalizedName (js ''haiku'') then Rates haiku_4_5
                else Rates sonnet_4_5)
          else if str_includes normalizedName (js ''gpt'')
          then (if str_includes normalizedName (js ''gpt-4-turbo'') then Rates gpt_4_turbo
                else if str_includes normalizedName (js ''gpt-4'') then Rates gpt_4
                else Rates gpt_3_5_turbo)
          else if str_includes normalizedName (js ''gemini'')
          then (if str_includes normalizedName (js ''flash'') then Rates gemini_1_5_flash
                else Rates gemini_1_5_pro)
          else Rates sonnet_4_5)))"

section \<open>Cost\<close>

text \<open>The usage counters of a response; \<open>None\<close> is an absent (or \<open>null\<close>) field.\<close>

record usage =
  input_tokens :: "nat option"
  output_tokens :: "nat option"
  cache_creation_input_tokens :: "nat option"
  cache_read_input_tokens :: "nat option"
  total_tokens :: "nat option"

text \<open>The number a numeric literal denotes, and the number of a token count of the
  response.\<close>

definition number_of_literal :: "rat \<Rightarrow> number" where
  "number_of_literal q = round_double q"

definition number_of_count :: "nat \<Rightarrow> number" where
  "number_of_count n = round_double (of_nat n)"

text \<open>\<open>field || 0\<close>.\<close>

definition or_zero :: "nat option \<Rightarrow> number" where
  "or_zero f = (case f of None \<Rightarrow> Fin 0 | Some n \<Rightarrow> number_of_count n)"

text \<open>Truthiness of a counter and of a rate: present and not zero.\<close>

definition truthy_count :: "nat option \<Rightarrow> bool" where
  "truthy_count f = (case f of None \<Rightarrow> False | Some n \<Rightarrow> n \<noteq> 0)"

definition truthy_rate :: "rat option \<Rightarrow> bool" where
  "truthy_rate r = (case r of None \<Rightarrow> False | Some w \<Rightarrow> truthy_number (number_of_literal w))"

text \<open>\<open>count * (rate / 1_000_000)\<close>: the quotient is rounded, then the product. A rate
  that is \<open>undefined\<close> is \<open>NaN\<close> as a number.\<close>

definition times_rate :: "nat option \<Rightarrow> rat option \<Rightarrow> number" where
  "times_rate f r =
     times_number (or_zero f) (per_million (case r of None \<Rightarrow> NaN | Some w \<Rightarrow> number_of_literal w))"

text \<open>\<open>calculateCost\<close> of \<open>review.js\<close>. On a prototype member every rate is
  \<open>undefined\<close>, so the first product already is \<open>NaN\<close>.\<close>

definition calculateCost :: "usage \<Rightarrow> jsstring \<Rightarrow> number" where
  "calculateCost u modelName =
     (case getModelPricing modelName of
        PrototypeMember \<Rightarrow> NaN
      | Rates prices \<Rightarrow>
          (let cost = Fin 0;
               cost = plus_number cost (times_rate (input_tokens u) (Some (input_price prices)));
               cost = plus_number cost (times_rate (output_tokens u) (Some (output_price prices)));
               cost = (if truthy_count (cache_creation_input_tokens u)
                          \<and> truthy_rate (cache_write_price prices)
                       then plus_number cost
                              (times_rate (cache_creation_input_tokens u) (cache_write_price prices))
                       else cost);
               cost = (if truthy_count (cache_read_input_tokens u)
                          \<and> truthy_rate (cache_read_price prices)
                       then plus_number cost
                              (times_rate (cache_read_input_tokens u) (cache_read_price prices))
                       else cost)
           in cost))"

text \<open>\<open>modelName || this.model\<close>: an absent or empty name falls back to the adapter's.\<close>

definition or_model :: "jsstring option \<Rightarrow> jsstring \<Rightarrow> jsstring" where
  "or_model modelName this_model =
     (case modelName of None \<Rightarrow> this_model | Some n \<Rightarrow> if n = [] then this_model else n)"

text \<open>\<open>AnthropicProvider.calculateCost\<close>: the cache terms are guarded by the usage
  counters alone.\<close>

definition AnthropicProvider_calculateCost :: "jsstring \<Rightarrow> usage \<Rightarrow> jsstring option \<Rightarrow> number" where
  "AnthropicProvider_calculateCost this_model u modelName =
     (case AnthropicProvider_getModelPricing (or_model modelName this_model) of
        PrototypeMember \<Rightarrow> NaN
      | Rates prices \<Rightarrow>
          (let cost = Fin 0;
               cost = plus_number cost (times_rate (input_tokens u) (Some (input_price prices)));
               cost = plus_number cost (times_rate (output_tokens u) (Some (output_price prices)));
               cost = (if truthy_count (cache_creation_input_tokens u)
                       then plus_number cost
                              (times_rate (cache_creation_input_tokens u) (cache_write_price prices))
                       else cost);
               cost = (if truthy_count (cache_read_input_tokens u)
                       then plus_number cost
                              (times_rate (cache_read_input_tokens u) (cache_read_price prices))
                       else cost)
           in cost))"

text \<open>\<open>OpenAIProvider.calculateCost\<close> and \<open>GoogleProvider.calculateCost\<close>: input and
  output tokens only.\<close>

definition OpenAIProvider_calculateCost :: "jsstring \<Rightarrow> usage \<Rightarrow> jsstring option \<Rightarrow> number" where
  "OpenAIProvider_calculateCost this_model u modelName =
     (case OpenAIProvider_getModelPricing (or_model modelName this_model) of
        PrototypeMember \<Rightarrow> NaN
      | Rates prices \<Rightarrow>
          (let cost = Fin 0;
               cost = plus_number cost (times_rate (input_tokens u) (Some (input_price prices)));
               cost = plus_number cost (times_rate (output_tokens u) (Some (output_price prices)))
           in cost))"

definition GoogleProvider_calculateCost :: "jsstring \<Rightarrow> usage \<Rightarrow> jsstring option \<Rightarrow> number" where
  "GoogleProvider_calculateCost this_model u modelName =
     (case GoogleProvider_getModelPricing (or_model modelName this_model) of
        PrototypeMember \<Rightarrow> NaN
      | Rates prices \<Rightarrow>
          (let cost = Fin 0;
               cost = plus_number cost (times_rate (input_tokens u) (Some (input_price prices)));
               cost = plus_number cost (times_rate (output_tokens u) (Some (output_price prices)))
           in cost))"

section \<open>JSON\<close>

text \<open>
  The values \<open>JSON.parse\<close> produces. A number carries the exact value of its literal
  (the double it is rounded to is not modelled, except in the test for zero below); an
  object carries its members by key, a repeated key keeping its first place and its last
  value.
\<close>

datatype json =
    JNull
  | JBool bool
  | JNum rat
  | JStr jsstring
  | JArr "json list"
  | JObj "(jsstring \<times> json) list"

subsection \<open>\<open>JSON.parse\<close>\<close>

text \<open>
  The text is cut into tokens by a machine that reads one code unit at a time, and the
  tokens are assembled with a stack of the arrays and objects that are still open. A
  maximal run of code units that are neither white space, nor structural, nor a quote
  must be one literal or one number, as in the JSON grammar, where nothing else may
  stand next to a scalar. \<open>None\<close> is the \<open>SyntaxError\<close> that \<open>JSON.parse\<close> throws.
\<close>

datatype token =
    TLBracket | TRBracket | TLBrace | TRBrace | TComma | TColon
  | TString jsstring | TNumber rat | TTrue | TFalse | TNull

definition is_ws :: "nat \<Rightarrow> bool" where
  "is_ws c = (c = 32 \<or> c = 9 \<or> c = 10 \<or> c = 13)"

definition is_delimiter :: "nat \<Rightarrow> bool" where
  "is_delimiter c = (is_ws c \<or> c \<in> {91, 93, 123, 125, 44, 58, 34})"

definition is_digit :: "nat \<Rightarrow> bool" where
  "is_digit c = (48 \<le> c \<and> c \<le> 57)"

definition digits_value :: "jsstring \<Rightarrow> nat" where
  "digits_value ds = foldl (\<lambda>v d. 10 * v + (d - 48)) 0 ds"

definition hex_value :: "nat \<Rightarrow> nat option" where
  "hex_value c =
     (if 48 \<le> c \<and> c \<le> 57 then Some (c - 48)
      else if 65 \<le> c \<and> c \<le> 70 then Some (c - 55)
      else if 97 \<le> c \<and> c \<le> 102 then Some (c - 87)
      else None)"

definition scale10 :: "rat \<Rightarrow> int \<Rightarrow> rat" where
  "scale10 m e = (if 0 \<le> e then m * 10 ^ nat e else m / 10 ^ nat (- e))"

text \<open>The number grammar: \<open>-? (0 | [1-9][0-9]*) (. [0-9]+)? ([eE] [+-]? [0-9]+)?\<close>.\<close>

definition number_fraction :: "jsstring \<Rightarrow> (jsstring \<times> jsstring) option" where
  "number_fraction w =
     (case w of
        [] \<Rightarrow> Some ([], [])
      | c # r \<Rightarrow>
          if c = 46 then
            (let fp = takeWhile is_digit r
             in if fp = [] then None else Some (fp, dropWhile is_digit r))
          else Some ([], w))"

definition number_exponent :: "jsstring \<Rightarrow> int option" where
  "number_exponent w =
     (case w of
        [] \<Rightarrow> Some 0
      | c # r \<Rightarrow>
          if c = 101 \<or> c = 69 then
            (let (neg, ds) = (case r of
                                [] \<Rightarrow> (False, [])
                              | s # r' \<Rightarrow> if s = 45 then (True, r')
                                          else if s = 43 then (False, r') else (False, r))
             in if ds \<noteq> [] \<and> list_all is_digit ds
                then Some (if neg then - int (digits_value ds) else int (digits_value ds))
                else None)
          else None)"

definition parse_number :: "jsstring \<Rightarrow> rat option" where
  "parse_number w =
     (let neg = (w \<noteq> [] \<and> hd w = 45);
          w1 = (if neg then tl w else w);
          ip = takeWhile is_digit w1
      in if ip = [] \<or> (length ip > 1 \<and> hd ip = 48) then None
         else (case number_fraction (dropWhile is_digit w1) of
                 None \<Rightarrow> None
               | Some (fp, w3) \<Rightarrow>
                   (case number_exponent w3 of
                      None \<Rightarrow> None
                    | Some e \<Rightarrow>
                        (let m = scale10 (of_nat (digits_value (ip @ fp))) (e - int (length fp))
                         in Some (if neg then - m else m)))))"

definition word_token :: "jsstring \<Rightarrow> token option" where
  "word_token w =
     (if w = js ''true'' then Some TTrue
      else if w = js ''false'' then Some TFalse
      else if w = js ''null'' then Some TNull
      else map_option TNumber (parse_number w))"

text \<open>The lexer's states; the strings collected so far are kept reversed.\<close>

datatype lex_state =
    LIdle
  | LWord jsstring
  | LString jsstring
  | LEscape jsstring
  | LUnicode jsstring "nat list"

definition lex_idle :: "token list \<Rightarrow> nat \<Rightarrow> (lex_state \<times> token list) option" where
  "lex_idle acc c =
     (if is_ws c then Some (LIdle, acc)
      else if c = 91 then Some (LIdle, TLBracket # acc)
      else if c = 93 then Some (LIdle, TRBracket # acc)
      else if c = 123 then Some (LIdle, TLBrace # acc)
      else if c = 125 then Some (LIdle, TRBrace # acc)
      else if c = 44 then Some (LIdle, TComma # acc)
      else if c = 58 then Some (LIdle, TColon # acc)
      else if c = 34 then Some (LString [], acc)
      else Some (LWord [c], acc))"

fun lex_step :: "lex_state \<Rightarrow> token list \<Rightarrow> nat \<Rightarrow> (lex_state \<times> token list) option" where
  "lex_step LIdle acc c = lex_idle acc c"
| "lex_step (LWord w) acc c =
     (if is_delimiter c
      then (case word_token (rev w) of None \<Rightarrow> None | Some t \<Rightarrow> lex_idle (t # acc) c)
      else Some (LWord (c # w), acc))"
| "lex_step (LString s) acc c =
     (if c = 34 then Some (LIdle, TString (rev s) # acc)
      else if c = 92 then Some (LEscape s, acc)
      else if c < 32 then None
      else Some (LString (c # s), acc))"
| "lex_step (LEscape s) acc c =
     (if c = 34 \<or> c = 92 \<or> c = 47 then Some (LString (c # s), acc)
      else if c = 98 then Some (LString (8 # s), acc)
      else if c = 102 then Some (LString (12 # s), acc)
      else if c = 110 then Some (LString (10 # s), acc)
      else if c = 114 then Some (LString (13 # s), acc)
      else if c = 116 then Some (LString (9 # s), acc)
      else if c = 117 then Some (LUnicode s [], acc)
      else None)"
| "lex_step (LUnicode s ds) acc c =
     (case hex_value c of
        None \<Rightarrow> None
      | Some d \<Rightarrow>
          if length ds = 3
          then Some (LString (foldl (\<lambda>v h. 16 * v + h) 0 (ds @ [d]) # s), acc)
          else Some (LUnicode s (ds @ [d]), acc))"

fun lex :: "lex_state \<Rightarrow> token list \<Rightarrow> jsstring \<Rightarrow> token list option" where
  "lex st acc [] =
     (case st of
        LIdle \<Rightarrow> Some (rev acc)
      | LWord w \<Rightarrow> (case word_token (rev w) of None \<Rightarrow> None | Some t \<Rightarrow> Some (rev (t # acc)))
      | _ \<Rightarrow> None)"
| "lex st acc (c # cs) =
     (case lex_step st acc c of None \<Rightarrow> None | Some (st', acc') \<Rightarrow> lex st' acc' cs)"

text \<open>
  The parser's stack holds the open containers: an array with its elements so far
  (reversed), an object with its members so far and the key that awaits its value. The
  mode says what may come next.
\<close>

datatype frame = FArr "json list" | FObj "(jsstring \<times> json) list" "jsstring option"

datatype mode = MValue | MFirstElem | MFirstKey | MKey | MColon | MAfter | MDone json

fun set_member :: "jsstring \<Rightarrow> json \<Rightarrow> (jsstring \<times> json) list \<Rightarrow> (jsstring \<times> json) list" where
  "set_member k v [] = [(k, v)]"
| "set_member k v ((k', v') # ms) =
     (if k = k' then (k, v) # ms else (k', v') # set_member k v ms)"

fun complete :: "json \<Rightarrow> frame list \<Rightarrow> (mode \<times> frame list) option" where
  "complete v [] = Some (MDone v, [])"
| "complete v (FArr es # st) = Some (MAfter, FArr (v # es) # st)"
| "complete v (FObj ms (Some k) # st) = Some (MAfter, FObj (set_member k v ms) None # st)"
| "complete v (FObj ms None # st) = None"

definition expects_value :: "mode \<Rightarrow> bool" where
  "expects_value m = (m = MValue \<or> m = MFirstElem)"

fun parse_step :: "mode \<Rightarrow> frame list \<Rightarrow> token \<Rightarrow> (mode \<times> frame list) option" where
  "parse_step m st TLBracket = (if expects_value m then Some (MFirstElem, FArr [] # st) else None)"
| "parse_step m st TLBrace = (if expects_value m then Some (MFirstKey, FObj [] None # st) else None)"
| "parse_step m st TRBracket =
     (case st of
        FArr es # st' \<Rightarrow>
          if m = MFirstElem \<or> m = MAfter then complete (JArr (rev es)) st' else None
      | _ \<Rightarrow> None)"
| "parse_step m st TRBrace =
     (case st of
        FObj ms None # st' \<Rightarrow>
          if m = MFirstKey \<or> m = MAfter then complete (JObj ms) st' else None
      | _ \<Rightarrow> None)"
| "parse_step m st TComma =
     (if m = MAfter
      then (case st of
              FArr es # st' \<Rightarrow> Some (MValue, st)
            | FObj ms None # st' \<Rightarrow> Some (MKey, st)
            | _ \<Rightarrow> None)
      else None)"
| "parse_step m st TColon = (if m = MColon then Some (MValue, st) else None)"
| "parse_step m st (TString s) =
     (if m = MFirstKey \<or> m = MKey
      then (case st of
              FObj ms None # st' \<Rightarrow> Some (MColon, FObj ms (Some s) # st')
            | _ \<Rightarrow> None)
      else if expects_value m then complete (JStr s) st else None)"
| "parse_step m st (TNumber q) = (if expects_value m then complete (JNum q) st else None)"
| "parse_step m st TTrue = (if expects_value m then complete (JBool True) st else None)"
| "parse_step m st TFalse = (if expects_value m then complete (JBool False) st else None)"
| "parse_step m st TNull = (if expects_value m then complete JNull st else None)"

fun parse_tokens :: "mode \<Rightarrow> frame list \<Rightarrow> token list \<Rightarrow> json option" where
  "parse_tokens m st [] = (case m of MDone v \<Rightarrow> Some v | _ \<Rightarrow> None)"
| "parse_tokens m st (t # ts) =
     (case parse_step m st t of None \<Rightarrow> None | Some (m', st') \<Rightarrow> parse_tokens m' st' ts)"

definition JSON_parse :: "jsstring \<Rightarrow> json option" where
  "JSON_parse text =
     (case lex LIdle [] text of None \<Rightarrow> None | Some ts \<Rightarrow> parse_tokens MValue [] ts)"

subsection \<open>Reading JSON values as JavaScript does\<close>

text \<open>What a \<open>throw\<close> carries: a \<open>TypeError\<close> of the runtime, or an \<open>Error\<close> with its
  message.\<close>

datatype error = TypeError | Error jsstring

text \<open>
  Truthiness. A number is falsy when its double is zero: when the literal's value is at
  most \<open>2^-1075\<close> in magnitude, half the least positive double.
\<close>

fun truthy :: "json \<Rightarrow> bool" where
  "truthy JNull = False"
| "truthy (JBool b) = b"
| "truthy (JNum q) = (\<bar>q\<bar> * 2 ^ 1075 > 1)"
| "truthy (JStr s) = (s \<noteq> [])"
| "truthy (JArr es) = True"
| "truthy (JObj ms) = True"

text \<open>
  \<open>f.name\<close>, for the names \<open>severity\<close>, \<open>file\<close>, \<open>line\<close> and \<open>title\<close>, which no
  built-in prototype defines: a \<open>TypeError\<close> on \<open>null\<close>, the member of an object, and
  \<open>undefined\<close> (\<open>None\<close>) otherwise.
\<close>

fun get_member :: "json \<Rightarrow> jsstring \<Rightarrow> error + json option" where
  "get_member JNull k = Inl TypeError"
| "get_member (JObj ms) k = Inr (map_of ms k)"
| "get_member v k = Inr None"

definition truthy_opt :: "json option \<Rightarrow> bool" where
  "truthy_opt v = (case v of None \<Rightarrow> False | Some x \<Rightarrow> truthy x)"

text \<open>\<open>xs.filter(p)\<close> where \<open>p\<close> may throw: the first throw ends the whole filter.\<close>

fun filter_throwing :: "('a \<Rightarrow> error + bool) \<Rightarrow> 'a list \<Rightarrow> error + 'a list" where
  "filter_throwing p [] = Inr []"
| "filter_throwing p (x # xs) =
     (case p x of
        Inl e \<Rightarrow> Inl e
      | Inr b \<Rightarrow>
          (case filter_throwing p xs of
             Inl e \<Rightarrow> Inl e
           | Inr ys \<Rightarrow> Inr (if b then x # ys else ys)))"

text \<open>
  A value used as a property name (\<open>TABLE[v]\<close>) is converted to a string: a string is
  itself; an array is its elements' strings joined by commas, \<open>null\<close> elements being
  empty; an object is \<open>[object Object]\<close>, unless it has a member \<open>toString\<close> of its own,
  which is not callable, and the conversion throws a \<open>TypeError\<close>. The text of a number
  is not computed: it has a digit or is \<open>Infinity\<close>, so no text that contains it is a
  name of the tables read here or of \<open>Object.prototype\<close> (\<open>KeyNumeric\<close>).
\<close>

datatype key = KeyError | KeyNumeric | Key jsstring

fun join_keys :: "key list \<Rightarrow> key" where
  "join_keys [] = Key []"
| "join_keys [k] = k"
| "join_keys (k # ks) =
     (case (k, join_keys ks) of
        (KeyError, r) \<Rightarrow> KeyError
      | (k', KeyError) \<Rightarrow> KeyError
      | (KeyNumeric, r) \<Rightarrow> KeyNumeric
      | (k', KeyNumeric) \<Rightarrow> KeyNumeric
      | (Key a, Key b) \<Rightarrow> Key (a @ 44 # b))"

fun to_key :: "json \<Rightarrow> key" and element_keys :: "json list \<Rightarrow> key list" where
  "to_key JNull = Key (js ''null'')"
| "to_key (JBool b) = Key (if b then js ''true'' else js ''false'')"
| "to_key (JNum q) = KeyNumeric"
| "to_key (JStr s) = Key s"
| "to_key (JArr es) = join_keys (element_keys es)"
| "to_key (JObj ms) =
     (if map_of ms (js ''toString'') = None then Key (js ''[object Object]'') else KeyError)"
| "element_keys [] = []"
| "element_keys (e # es) = (if e = JNull then Key [] else to_key e) # element_keys es"

definition to_key_opt :: "json option \<Rightarrow> key" where
  "to_key_opt v = (case v of None \<Rightarrow> Key (js ''undefined'') | Some x \<Rightarrow> to_key x)"

section \<open>Findings\<close>

text \<open>
  \<open>responseText.match(/\[[\s\S]*\]/)\<close>: from the first \<open>[\<close> (code unit 91) of the text
  to its last \<open>]\<close> (code unit 93), if one follows.
\<close>

definition match_array :: "jsstring \<Rightarrow> jsstring option" where
  "match_array responseText =
     (case dropWhile (\<lambda>c. c \<noteq> 91) responseText of
        [] \<Rightarrow> None
      | c # rest \<Rightarrow>
          if 93 \<in> set rest then Some (c # rev (dropWhile (\<lambda>c. c \<noteq> 93) (rev rest))) else None)"

text \<open>The test of \<open>parseFindings\<close>' filter: \<open>!f.severity || !f.file || !f.line ||
  !f.title\<close> drops the element.\<close>

definition finding_is_valid :: "json \<Rightarrow> error + bool" where
  "finding_is_valid f =
     (case get_member f (js ''severity'') of
        Inl e \<Rightarrow> Inl e
      | Inr severity \<Rightarrow>
          if \<not> truthy_opt severity then Inr False
          else (case get_member f (js ''file'') of
                  Inl e \<Rightarrow> Inl e
                | Inr file \<Rightarrow>
                    if \<not> truthy_opt file then Inr False
                    else (case get_member f (js ''line'') of
                            Inl e \<Rightarrow> Inl e
                          | Inr line \<Rightarrow>
                              if \<not> truthy_opt line then Inr False
                              else (case get_member f (js ''title'') of
                                      Inl e \<Rightarrow> Inl e
                                    | Inr title \<Rightarrow> Inr (truthy_opt title)))))"

text \<open>\<open>parseFindings\<close>. Everything happens inside \<open>try\<close>, and the \<open>catch\<close> returns the
  empty list (the log lines are not modelled).\<close>

definition parseFindings :: "jsstring \<Rightarrow> json list" where
  "parseFindings responseText =
     (case match_array responseText of
        None \<Rightarrow> []
      | Some jsonMatch \<Rightarrow>
          (case JSON_parse jsonMatch of
             None \<Rightarrow> []
           | Some findings \<Rightarrow>
               (case findings of
                  JArr elements \<Rightarrow>
                    (case filter_throwing finding_is_valid elements of
                       Inl e \<Rightarrow> []
                     | Inr validFindings \<Rightarrow> validFindings)
                | _ \<Rightarrow> [])))"

subsection \<open>Severity\<close>

definition SEVERITY_LEVELS :: "(jsstring \<times> nat) list" where
  "SEVERITY_LEVELS =
     [(js ''CRITICAL'', 4), (js ''HIGH'', 3), (js ''MEDIUM'', 2), (js ''LOW'', 1)]"

text \<open>\<open>SEVERITY_LEVELS[f.severity] || 0\<close>: a level, or an inherited member (truthy), or
  zero.\<close>

datatype rank = Level nat | Member jsstring

definition level_or_zero :: "key \<Rightarrow> error + rank" where
  "level_or_zero k =
     (case k of
        KeyError \<Rightarrow> Inl TypeError
      | KeyNumeric \<Rightarrow> Inr (Level 0)
      | Key s \<Rightarrow>
          (case obj_get SEVERITY_LEVELS s of
             Own n \<Rightarrow> Inr (Level n)
           | Inherited m \<Rightarrow> Inr (Member m)
           | Undefined \<Rightarrow> Inr (Level 0)))"

text \<open>
  \<open>severity >= threshold\<close>. Two numbers are compared as numbers. \<open>undefined\<close> is
  \<open>NaN\<close> as a number, and so is an inherited member beside a number: the comparison is
  false. Two inherited members are compared as strings, by code units: a function as
  its source text \<open>function name() { [native code] }\<close> (the member \<open>constructor\<close> is
  the function named \<open>Object\<close>), the member \<open>__proto__\<close> as \<open>[object Object]\<close>.
\<close>

fun str_less :: "jsstring \<Rightarrow> jsstring \<Rightarrow> bool" where
  "str_less [] [] = False"
| "str_less [] (y # ys) = True"
| "str_less (x # xs) [] = False"
| "str_less (x # xs) (y # ys) = (x < y \<or> (x = y \<and> str_less xs ys))"

definition member_text :: "jsstring \<Rightarrow> jsstring" where
  "member_text name =
     (if name = js ''__proto__'' then js ''[object Object]''
      else js ''function '' @ (if name = js ''constructor'' then js ''Object'' else name)
           @ js ''() { [native code] }'')"

fun greater_equal :: "rank \<Rightarrow> nat property \<Rightarrow> bool" where
  "greater_equal (Level a) (Own b) = (a \<ge> b)"
| "greater_equal (Member m) (Inherited n) = (\<not> str_less (member_text m) (member_text n))"
| "greater_equal r t = False"

text \<open>\<open>filterBySeverity\<close>, with \<open>CONFIG.severityThreshold\<close> as its first argument.\<close>

definition filterBySeverity :: "jsstring \<Rightarrow> json list \<Rightarrow> error + json list" where
  "filterBySeverity severityThreshold findings =
     (let threshold = obj_get SEVERITY_LEVELS severityThreshold
      in filter_throwing
           (\<lambda>f. case get_member f (js ''severity'') of
                   Inl e \<Rightarrow> Inl e
                 | Inr v \<Rightarrow>
                     (case level_or_zero (to_key_opt v) of
                        Inl e \<Rightarrow> Inl e
                      | Inr severity \<Rightarrow> Inr (greater_equal severity threshold)))
           findings)"

text \<open>\<open>f.severity === name\<close>.\<close>

definition severity_is :: "jsstring \<Rightarrow> json \<Rightarrow> error + bool" where
  "severity_is name f =
     (case get_member f (js ''severity'') of
        Inl e \<Rightarrow> Inl e
      | Inr v \<Rightarrow> Inr (v = Some (JStr name)))"

record counts =
  CRITICAL :: nat
  HIGH :: nat
  MEDIUM :: nat
  LOW :: nat

definition countBySeverity :: "json list \<Rightarrow> error + counts" where
  "countBySeverity findings =
     (case filter_throwing (severity_is (js ''CRITICAL'')) findings of
        Inl e \<Rightarrow> Inl e
      | Inr c \<Rightarrow>
     (case filter_throwing (severity_is (js ''HIGH'')) findings of
        Inl e \<Rightarrow> Inl e
      | Inr h \<Rightarrow>
     (case filter_throwing (severity_is (js ''MEDIUM'')) findings of
        Inl e \<Rightarrow> Inl e
      | Inr m \<Rightarrow>
     (case filter_throwing (severity_is (js ''LOW'')) findings of
        Inl e \<Rightarrow> Inl e
      | Inr l \<Rightarrow>
          Inr \<lparr>CRITICAL = length c, HIGH = length h, MEDIUM = length m, LOW = length l\<rparr>))))"

text \<open>The severity check of \<open>validateConfig\<close>:
  \<open>validSeverities.includes(CONFIG.severityThreshold.toUpperCase())\<close>.\<close>

definition validSeverities :: "jsstring list" where
  "validSeverities = map js [''CRITICAL'', ''HIGH'', ''MEDIUM'', ''LOW'']"

definition severityThreshold_accepted :: "jsstring \<Rightarrow> bool" where
  "severityThreshold_accepted severityThreshold =
     (toUpperCase severityThreshold \<in> set validSeverities)"

section \<open>File filter\<close>

text \<open>
  The regular expressions of \<open>filterFiles\<close> are of four shapes: anchored at the end
  (\<open>/\.lock$/\<close>), unanchored (\<open>/dist\//\<close>), anchored at the start
  (\<open>/^\.github\/workflows\//\<close>), and unanchored ignoring case (\<open>/token/i\<close>). A
  group of alternatives (\<open>(js|css)\<close>, \<open>s?\<close>, \<open>[-_]?\<close>) is listed string by string.
  Ignoring case, a code unit outside ASCII never matches an ASCII letter, so folding
  the Basic Latin letters decides the match.
\<close>

datatype pattern =
    EndsWith "jsstring list"
  | Contains "jsstring list"
  | StartsWith jsstring
  | ContainsNoCase "jsstring list"

fun test :: "pattern \<Rightarrow> jsstring \<Rightarrow> bool" where
  "test (EndsWith alts) file = list_ex (\<lambda>s. suffix s file) alts"
| "test (Contains alts) file = list_ex (\<lambda>s. str_includes file s) alts"
| "test (StartsWith s) file = prefix s file"
| "test (ContainsNoCase alts) file = list_ex (\<lambda>s. str_includes (toLowerCase file) s) alts"

definition excludePatterns :: "pattern list" where
  "excludePatterns =
     [EndsWith [js ''.lock''],
      EndsWith [js ''package-lock.json''],
      EndsWith [js ''yarn.lock''],
      EndsWith [js ''Gemfile.lock''],
      EndsWith [js ''poetry.lock''],
      EndsWith [js ''go.sum''],
      EndsWith [js ''.min.js'', js ''.min.css''],
      Contains [js ''dist/''],
      Contains [js ''build/''],
      Contains [js ''target/''],
      Contains [js ''node_modules/''],
      Contains [js ''vendor/''],
      Contains [js ''.generated.''],
      EndsWith [js ''_pb2.py''],
      EndsWith [js ''_pb2_grpc.py''],
      EndsWith [js ''.pb.go''],
      EndsWith (map js [''.png'', ''.jpg'', ''.jpeg'', ''.gif'', ''.svg'', ''.ico'', ''.pdf'',
                        ''.woff'', ''.woff2'', ''.ttf'', ''.eot'']),
      Contains [js ''__snapshots__/''],
      EndsWith [js ''.snap''],
      Contains [js ''migration/'', js ''migrations/''],
      StartsWith (js ''.github/workflows/'')]"

definition sensitivePatterns :: "pattern list" where
  "sensitivePatterns =
     [EndsWith [js ''.env''],
      Contains [js ''.env.''],
      ContainsNoCase [js ''credentials''],
      ContainsNoCase [js ''secrets''],
      EndsWith [js ''.pem''],
      EndsWith [js ''.key''],
      EndsWith [js ''.p12''],
      EndsWith [js ''.pfx''],
      Contains [js ''id_rsa''],
      Contains [js ''id_dsa''],
      Contains [js ''id_ecdsa''],
      Contains [js ''id_ed25519''],
      EndsWith [js ''.ppk''],
      EndsWith [js ''.keystore''],
      EndsWith [js ''.jks''],
      ContainsNoCase [js ''token''],
      ContainsNoCase [js ''password''],
      ContainsNoCase [js ''apikey'', js ''api-key'', js ''api_key'']]"

text \<open>\<open>filterFiles\<close>: a sensitive file is dropped first (and listed in a warning, not
  modelled), then a file that matches an exclude pattern.\<close>

definition filterFiles :: "jsstring list \<Rightarrow> jsstring list" where
  "filterFiles files =
     filter (\<lambda>file.
               if list_ex (\<lambda>pattern. test pattern file) sensitivePatterns then False
               else \<not> list_ex (\<lambda>pattern. test pattern file) excludePatterns)
            files"

section \<open>Provider factory\<close>

text \<open>An adapter with the fields its constructor stores: key and model, and for the
  Gemini adapter project and location. (The vendor clients the constructors build are
  not modelled.)\<close>

datatype provider =
    AnthropicProvider jsstring jsstring
  | OpenAIProvider jsstring jsstring
  | GoogleProvider jsstring jsstring jsstring jsstring

record factory_options =
  projectId :: "jsstring option"
  location :: "jsstring option"

definition getSupportedProviders :: "jsstring list" where
  "getSupportedProviders = map js [''anthropic'', ''openai'', ''google'']"

text \<open>\<open>ProviderFactory.createProvider\<close>. \<open>!apiKey\<close> and \<open>!options.projectId\<close> hold for
  an absent and for an empty string: \<open>truthy_string\<close> gives the string otherwise.\<close>

definition truthy_string :: "jsstring option \<Rightarrow> jsstring option" where
  "truthy_string s = (case s of None \<Rightarrow> None | Some x \<Rightarrow> if x = [] then None else Some x)"

definition createProvider ::
  "jsstring \<Rightarrow> jsstring option \<Rightarrow> jsstring option \<Rightarrow> factory_options \<Rightarrow> error + provider" where
  "createProvider providerName apiKey model options =
     (case truthy_string apiKey of
        None \<Rightarrow> Inl (Error (js ''API key is required for provider: '' @ providerName))
      | Some key \<Rightarrow>
        (let provider = toLowerCase providerName
         in if provider = js ''anthropic'' \<or> provider = js ''claude''
            then Inr (AnthropicProvider key (or_model model (js ''claude-sonnet-4-5-20250929'')))
            else if provider = js ''openai'' \<or> provider = js ''gpt''
            then Inr (OpenAIProvider key (or_model model (js ''gpt-4-turbo-preview'')))
            else if provider = js ''google'' \<or> provider = js ''gemini''
            then (case truthy_string (projectId options) of
                    None \<Rightarrow> Inl (Error (js ''Google provider requires projectId option''))
                  | Some project \<Rightarrow>
                      Inr (GoogleProvider key (or_model model (js ''gemini-1.5-pro'')) project
                             (or_model (location options) (js ''us-central1''))))
            else Inl (Error (js ''Unknown provider: '' @ providerName
                             @ js ''. Supported: anthropic, openai, google''))))"

section \<open>Adapters: \<open>review\<close>\<close>

record response =
  resp_text :: jsstring
  resp_usage :: usage
  resp_model :: jsstring

text \<open>
  What the \<open>try\<close> block of one attempt does (the vendor call and the reading of its
  answer): it throws an error with a message, or it returns the normalised response.
  The vendor is a function from the attempt's number to this outcome.
\<close>

datatype attempt = Fails jsstring | Returns response

text \<open>What the promise of \<open>review\<close> settles to: rejected with an error, or resolved with
  a response, or resolved with \<open>undefined\<close> (\<open>None\<close>) when the function body ends
  without a \<open>return\<close>.\<close>

datatype outcome = Rejected error | Resolved "response option"

text \<open>A value of an output record: a boolean, a count, or the text of
  \<open>cost.toFixed(4)\<close>, kept as the number it prints.\<close>

datatype outval = OBool bool | ONat nat | OFixed4 number

text \<open>What a run does to the world around it, in order: vendor calls (numbered by
  attempt) and sleeps (in milliseconds), comments posted or tried, the record handed to
  \<open>setOutputs\<close> (with whether it is written), the exit.\<close>

datatype event =
    ApiCall nat
  | Sleep nat
  | PostNoFilesComment
  | ProviderCreated provider
  | PrintFindings
  | PostReviewComments
  | PostSummaryComment
  | PostErrorComment
  | SetOutputs "(jsstring \<times> outval) list" bool
  | Exit nat

text \<open>The decimal digits of a number, as a template literal prints it.\<close>

function show_nat :: "nat \<Rightarrow> jsstring" where
  "show_nat n = (if n < 10 then [48 + n] else show_nat (n div 10) @ [48 + n mod 10])"
  by pat_completeness auto
termination
  by (relation "measure id") auto

declare show_nat.simps [simp del]

text \<open>
  The retry loop shared by the three adapters,
  \<open>for (let attempt = 1; attempt <= retries; attempt++)\<close>: an attempt that throws is the
  last one when \<open>attempt === retries\<close>, and is otherwise followed by a sleep of
  \<open>2^attempt * 1000\<close> milliseconds. \<open>name\<close> is the adapter's name in the message.
\<close>

function review_loop :: "jsstring \<Rightarrow> nat \<Rightarrow> (nat \<Rightarrow> attempt) \<Rightarrow> nat \<Rightarrow> event list \<times> outcome" where
  "review_loop name retries api attempt =
     (if attempt \<le> retries
      then (case api attempt of
              Returns r \<Rightarrow> ([ApiCall attempt], Resolved (Some r))
            | Fails message \<Rightarrow>
                if attempt = retries
                then ([ApiCall attempt],
                      Rejected (Error (name @ js '' API failed after '' @ show_nat retries
                                       @ js '' attempts: '' @ message)))
                else (let (events, result) = review_loop name retries api (attempt + 1)
                      in (ApiCall attempt # Sleep (2 ^ attempt * 1000) # events, result)))
      else ([], Resolved None))"
  by pat_completeness auto
termination
  by (relation "measure (\<lambda>(name, retries, api, attempt). retries + 1 - attempt)") auto

declare review_loop.simps [simp del]

text \<open>\<open>retries = 3\<close> in the destructuring of \<open>options\<close>: the default of an absent field.\<close>

definition retries_or_default :: "nat option \<Rightarrow> nat" where
  "retries_or_default r = (case r of None \<Rightarrow> 3 | Some n \<Rightarrow> n)"

definition AnthropicProvider_review :: "nat option \<Rightarrow> (nat \<Rightarrow> attempt) \<Rightarrow> event list \<times> outcome" where
  "AnthropicProvider_review retries api =
     review_loop (js ''Anthropic'') (retries_or_default retries) api 1"

definition OpenAIProvider_review :: "nat option \<Rightarrow> (nat \<Rightarrow> attempt) \<Rightarrow> event list \<times> outcome" where
  "OpenAIProvider_review retries api =
     review_loop (js ''OpenAI'') (retries_or_default retries) api 1"

definition GoogleProvider_review :: "nat option \<Rightarrow> (nat \<Rightarrow> attempt) \<Rightarrow> event list \<times> outcome" where
  "GoogleProvider_review retries api =
     review_loop (js ''Google Gemini'') (retries_or_default retries) api 1"

text \<open>\<open>provider.review(...)\<close> by the adapter's class.\<close>

fun review :: "provider \<Rightarrow> nat option \<Rightarrow> (nat \<Rightarrow> attempt) \<Rightarrow> event list \<times> outcome" where
  "review (AnthropicProvider k m) retries api = AnthropicProvider_review retries api"
| "review (OpenAIProvider k m) retries api = OpenAIProvider_review retries api"
| "review (GoogleProvider k m p l) retries api = GoogleProvider_review retries api"

section \<open>Orchestrator\<close>

text \<open>The fields of \<open>CONFIG\<close> that the steps modelled here read, and whether the
  environment names an output file (\<open>GITHUB_OUTPUT\<close>).\<close>

record config =
  cfg_provider :: jsstring
  cfg_apiKey :: "jsstring option"
  cfg_model :: "jsstring option"
  cfg_severityThreshold :: jsstring
  cfg_failOnErrors :: bool
  cfg_dryRun :: bool
  cfg_googleProjectId :: "jsstring option"
  cfg_googleLocation :: jsstring
  env_GITHUB_OUTPUT :: bool

text \<open>
  The collaborators outside the core, each given by what its call does in this run:
  the error it throws, if any, or its result. \<open>postNoFilesComment\<close> catches its own
  errors, and an error of \<open>postErrorComment\<close> is caught by \<open>main\<close>; what they do changes
  nothing in the run, and they are not listed.
\<close>

record world =
  w_validateConfig :: "error option"
  w_chdir :: "error option"
  w_getPRChanges :: "error + jsstring \<times> jsstring list"
  w_readGuidelines :: "error + jsstring"
  w_api :: "nat \<Rightarrow> attempt"
  w_printFindings :: "error option"
  w_postReviewComments :: "error option"
  w_postSummaryComment :: "error option"

text \<open>\<open>setOutputs\<close>: the pairs are appended to the output file as lines \<open>key=value\<close>
  if the environment names one (the flag of the event).\<close>

definition setOutputs :: "config \<Rightarrow> (jsstring \<times> outval) list \<Rightarrow> event list" where
  "setOutputs cfg outputs = [SetOutputs outputs (env_GITHUB_OUTPUT cfg)]"

text \<open>The \<open>catch\<close> of \<open>main\<close>: it tries to post the error comment (a failure of that is
  caught in turn), writes \<open>completed: false\<close>, and exits with 1 if configured.\<close>

definition on_error :: "config \<Rightarrow> event list" where
  "on_error cfg =
     PostErrorComment # setOutputs cfg [(js ''completed'', OBool False)]
     @ (if cfg_failOnErrors cfg then [Exit 1] else [])"

text \<open>\<open>callLLM\<close>: \<open>review\<close> is called without \<open>retries\<close>; reading \<open>response.usage\<close> of an
  undefined response is a \<open>TypeError\<close>.\<close>

definition callLLM :: "provider \<Rightarrow> world \<Rightarrow> event list \<times> (error + response)" where
  "callLLM llmProvider w =
     (let (events, result) = review llmProvider None (w_api w)
      in (events,
          case result of
            Rejected e \<Rightarrow> Inl e
          | Resolved None \<Rightarrow> Inl TypeError
          | Resolved (Some response) \<Rightarrow> Inr response))"

text \<open>What \<open>main\<close> does once the response is there.\<close>

definition report :: "config \<Rightarrow> world \<Rightarrow> response \<Rightarrow> event list" where
  "report cfg w response =
     (let allFindings = parseFindings (resp_text response)
      in case filterBySeverity (cfg_severityThreshold cfg) allFindings of
           Inl e \<Rightarrow> on_error cfg
         | Inr findings \<Rightarrow>
        (case countBySeverity findings of
           Inl e \<Rightarrow> on_error cfg
         | Inr counts \<Rightarrow>
        (let costEstimate = calculateCost (resp_usage response) (resp_model response);
             outputs = setOutputs cfg
               [(js ''completed'', OBool True),
                (js ''findings_count'', ONat (length findings)),
                (js ''critical_count'', ONat (CRITICAL counts)),
                (js ''high_count'', ONat (HIGH counts)),
                (js ''cost_estimate'', OFixed4 costEstimate)]
         in if cfg_dryRun cfg
            then (case w_printFindings w of
                    Some e \<Rightarrow> PrintFindings # on_error cfg
                  | None \<Rightarrow> PrintFindings # outputs)
            else (case (if findings \<noteq> [] then w_postReviewComments w else None) of
                    Some e \<Rightarrow> PostReviewComments # on_error cfg
                  | None \<Rightarrow>
                      (if findings \<noteq> [] then [PostReviewComments] else [])
                      @ (case w_postSummaryComment w of
                           Some e \<Rightarrow> PostSummaryComment # on_error cfg
                         | None \<Rightarrow> PostSummaryComment # outputs)))))"

text \<open>\<open>main\<close>: the events of one run.\<close>

definition main :: "config \<Rightarrow> world \<Rightarrow> event list" where
  "main cfg w =
     (case w_validateConfig w of
        Some e \<Rightarrow> on_error cfg
      | None \<Rightarrow>
     (case w_chdir w of
        Some e \<Rightarrow> on_error cfg
      | None \<Rightarrow>
     (case w_getPRChanges w of
        Inl e \<Rightarrow> on_error cfg
      | Inr (diff, changedFiles) \<Rightarrow>
     (let reviewableFiles = filterFiles changedFiles
      in if reviewableFiles = []
         then PostNoFilesComment
              # setOutputs cfg
                  [(js ''completed'', OBool True),
                   (js ''findings_count'', ONat 0),
                   (js ''critical_count'', ONat 0),
                   (js ''high_count'', ONat 0)]
         else
     (case w_readGuidelines w of
        Inl e \<Rightarrow> on_error cfg
      | Inr guidelines \<Rightarrow>
     (case createProvider (cfg_provider cfg) (cfg_apiKey cfg) (cfg_model cfg)
             \<lparr>projectId = cfg_googleProjectId cfg,
              location = Some (cfg_googleLocation cfg)\<rparr> of
        Inl e \<Rightarrow> on_error cfg
      | Inr llmProvider \<Rightarrow>
     (case callLLM llmProvider w of
        (events, Inl e) \<Rightarrow> ProviderCreated llmProvider # events @ on_error cfg
      | (events, Inr response) \<Rightarrow>
          ProviderCreated llmProvider # events @ report cfg w response)))))))"

section \<open>The specification's words\<close>

text \<open>
  The cost as the specification words it: input and output tokens at their rates, plus
  the cache tokens at the cache rates where the entry defines them; an absent counter
  counts as zero, and a rate is the entry's price divided by one million. The sum is
  taken from left to right, in JavaScript's arithmetic.
\<close>

definition rate :: "rat \<Rightarrow> number" where
  "rate price = per_million (number_of_literal price)"

definition tokens :: "nat option \<Rightarrow> number" where
  "tokens f = (case f of None \<Rightarrow> Fin 0 | Some n \<Rightarrow> number_of_count n)"

definition spec_cost :: "pricing \<Rightarrow> usage \<Rightarrow> number" where
  "spec_cost p u =
     (let cost = plus_number
                   (times_number (tokens (input_tokens u)) (rate (input_price p)))
                   (times_number (tokens (output_tokens u)) (rate (output_price p)));
          cost = (case cache_write_price p of
                    None \<Rightarrow> cost
                  | Some w \<Rightarrow>
                      plus_number cost
                        (times_number (tokens (cache_creation_input_tokens u)) (rate w)));
          cost = (case cache_read_price p of
                    None \<Rightarrow> cost
                  | Some r \<Rightarrow>
                      plus_number cost
                        (times_number (tokens (cache_read_input_tokens u)) (rate r)))
      in cost)"

text \<open>A field of an element is present and truthy.\<close>

definition field_truthy :: "json \<Rightarrow> jsstring \<Rightarrow> bool" where
  "field_truthy f k = (\<exists>v. get_member f k = Inr (Some v) \<and> truthy v)"

text \<open>The ranking \<open>CRITICAL > HIGH > MEDIUM > LOW\<close>, every other severity ranking 0; the
  rank of a finding is that of its severity when it is a string.\<close>

definition severity_rank :: "jsstring \<Rightarrow> nat" where
  "severity_rank s =
     (if s = js ''CRITICAL'' then 4 else if s = js ''HIGH'' then 3
      else if s = js ''MEDIUM'' then 2 else if s = js ''LOW'' then 1 else 0)"

definition finding_rank :: "json \<Rightarrow> nat" where
  "finding_rank f =
     (case get_member f (js ''severity'') of
        Inr (Some (JStr s)) \<Rightarrow> severity_rank s
      | _ \<Rightarrow> 0)"

text \<open>The records a run hands to \<open>setOutputs\<close>, in order.\<close>

fun outputs_of :: "event list \<Rightarrow> (jsstring \<times> outval) list list" where
  "outputs_of [] = []"
| "outputs_of (SetOutputs outputs written # es) = outputs # outputs_of es"
| "outputs_of (e # es) = outputs_of es"

text \<open>The three records a run can hand to \<open>setOutputs\<close>.\<close>

definition error_record :: "(jsstring \<times> outval) list" where
  "error_record = [(js ''completed'', OBool False)]"

definition no_files_record :: "(jsstring \<times> outval) list" where
  "no_files_record =
     [(js ''completed'', OBool True), (js ''findings_count'', ONat 0),
      (js ''critical_count'', ONat 0), (js ''high_count'', ONat 0)]"

definition success_record :: "nat \<Rightarrow> nat \<Rightarrow> nat \<Rightarrow> number \<Rightarrow> (jsstring \<times> outval) list" where
  "success_record n c h cost =
     [(js ''completed'', OBool True), (js ''findings_count'', ONat n),
      (js ''critical_count'', ONat c), (js ''high_count'', ONat h),
      (js ''cost_estimate'', OFixed4 cost)]"

section \<open>Properties of the pricing model\<close>

lemma js_Nil [simp]: "js [] = []"
  by (simp add: js_def)

lemma js_Cons [simp]: "js (c # s) = of_char c # js s"
  by (simp add: js_def)

lemma table_hit_None_iff:
  "table_hit tbl n = None \<longleftrightarrow> n \<notin> fst ` set tbl \<and> n \<notin> set object_prototype_names"
proof (cases "map_of tbl n")
  case None
  moreover from None have "n \<notin> fst ` set tbl"
    by (simp add: map_of_eq_None_iff)
  ultimately show ?thesis
    by (simp add: table_hit_def obj_get_def)
next
  case (Some v)
  then have "n \<in> fst ` set tbl"
    by (auto dest: map_of_SomeD intro: rev_image_eqI)
  with Some show ?thesis
    by (simp add: table_hit_def obj_get_def)
qed

text \<open>
  C1, as the code has it. A model name that is no key of the adapter's table, no member
  name of \<open>Object.prototype\<close>, and contains none of the adapter's family substrings gets
  the adapter's fixed default entry: Sonnet 4.5 for the Anthropic adapter (which looks
  the name up without its part from the first colon on), GPT-4 Turbo for the OpenAI
  adapter and Gemini 1.5 Pro for the Gemini adapter (which look the name up as given).
  The functions are total: nothing is raised.
\<close>

theorem getModelPricing_total_miss_default:
  "(split_colon_first n \<notin> fst ` set ANTHROPIC_PRICING
      \<and> split_colon_first n \<notin> set object_prototype_names
      \<and> \<not> str_includes (split_colon_first n) (js ''opus'')
      \<and> \<not> str_includes (split_colon_first n) (js ''haiku'')
      \<and> \<not> str_includes (split_colon_first n) (js ''sonnet'')
     \<longrightarrow> AnthropicProvider_getModelPricing n = Rates sonnet_4_5)
   \<and> (n \<notin> fst ` set OPENAI_PRICING \<and> n \<notin> set object_prototype_names
      \<and> \<not> str_includes n (js ''gpt-4-turbo'')
      \<and> \<not> str_includes n (js ''gpt-4'')
      \<and> \<not> str_includes n (js ''gpt-3.5'')
     \<longrightarrow> OpenAIProvider_getModelPricing n = Rates gpt_4_turbo)
   \<and> (n \<notin> fst ` set GOOGLE_PRICING \<and> n \<notin> set object_prototype_names
      \<and> \<not> str_includes n (js ''flash'')
      \<and> \<not> str_includes n (js ''1.5-pro'')
      \<and> \<not> str_includes n (js ''pro'')
     \<longrightarrow> GoogleProvider_getModelPricing n = Rates gemini_1_5_pro)"
proof -
  have a: "table_hit ANTHROPIC_PRICING (split_colon_first n) = None"
    if "split_colon_first n \<notin> fst ` set ANTHROPIC_PRICING"
       "split_colon_first n \<notin> set object_prototype_names"
    using that by (simp add: table_hit_None_iff)
  have b: "table_hit tbl n = None"
    if "n \<notin> fst ` set tbl" "n \<notin> set object_prototype_names" for tbl
    using that by (simp add: table_hit_None_iff)
  show ?thesis
    by (simp add: a b AnthropicProvider_getModelPricing_def OpenAIProvider_getModelPricing_def
        GoogleProvider_getModelPricing_def)
qed

theorem getModelPricing_total_miss_default_witness:
  "split_colon_first (js ''mystery-model'') \<notin> fst ` set ANTHROPIC_PRICING
   \<and> js ''mystery-model'' \<notin> fst ` set OPENAI_PRICING
   \<and> js ''mystery-model'' \<notin> fst ` set GOOGLE_PRICING
   \<and> js ''mystery-model'' \<notin> set object_prototype_names
   \<and> AnthropicProvider_getModelPricing (js ''mystery-model'') = Rates sonnet_4_5
   \<and> OpenAIProvider_getModelPricing (js ''mystery-model'') = Rates gpt_4_turbo
   \<and> GoogleProvider_getModelPricing (js ''mystery-model'') = Rates gemini_1_5_pro"
  using getModelPricing_total_miss_default [of "js ''mystery-model''"]
  by (simp add: split_colon_first_def ANTHROPIC_PRICING_def OPENAI_PRICING_def
      GOOGLE_PRICING_def object_prototype_names_def)

text \<open>
  C1 as stated fails: on a total miss the Anthropic adapter does not return the Opus
  entry, nor the OpenAI adapter the GPT-4 entry.
\<close>

theorem getModelPricing_flagship_counterexample:
  "split_colon_first (js ''mystery-model'') \<notin> fst ` set ANTHROPIC_PRICING
   \<and> \<not> str_includes (split_colon_first (js ''mystery-model'')) (js ''opus'')
   \<and> \<not> str_includes (split_colon_first (js ''mystery-model'')) (js ''haiku'')
   \<and> \<not> str_includes (split_colon_first (js ''mystery-model'')) (js ''sonnet'')
   \<and> AnthropicProvider_getModelPricing (js ''mystery-model'') \<noteq> Rates opus_4_5
   \<and> js ''mystery-model'' \<notin> fst ` set OPENAI_PRICING
   \<and> \<not> str_includes (js ''mystery-model'') (js ''gpt-4-turbo'')
   \<and> \<not> str_includes (js ''mystery-model'') (js ''gpt-4'')
   \<and> \<not> str_includes (js ''mystery-model'') (js ''gpt-3.5'')
   \<and> OpenAIProvider_getModelPricing (js ''mystery-model'') \<noteq> Rates gpt_4"
  by (simp add: AnthropicProvider_getModelPricing_def OpenAIProvider_getModelPricing_def
      split_colon_first_def table_hit_def obj_get_def ANTHROPIC_PRICING_def OPENAI_PRICING_def
      object_prototype_names_def sonnet_4_5_def opus_4_5_def gpt_4_def gpt_4_turbo_def)

section \<open>Properties of the double arithmetic\<close>

text \<open>The exponent is the one its definition names, and the only one.\<close>

lemma exponent_bounds:
  assumes "r \<noteq> 0"
  shows "2 powi exponent r \<le> \<bar>r\<bar> \<and> \<bar>r\<bar> < 2 powi (exponent r + 1)"
proof (cases "1 \<le> \<bar>r\<bar>")
  case True
  define n where "n = \<lfloor>\<bar>r\<bar>\<rfloor>"
  have n: "1 \<le> n"
    using True by (simp add: n_def le_floor_iff)
  then have b: "2 ^ nat (bitlen n - 1) \<le> n" "n < 2 ^ nat (bitlen n)"
    using bitlen_bounds [of n] by simp_all
  have l: "1 \<le> bitlen n"
    using n bitlen_eq_zero_iff [of n] bitlen_nonneg [of n] by linarith
  have e: "exponent r = bitlen n - 1"
    using True by (simp add: exponent_def n_def)
  have "(2::rat) powi (bitlen n - 1) = of_int (2 ^ nat (bitlen n - 1))"
    using l by (simp add: power_int_def)
  also have "\<dots> \<le> of_int n"
    using b(1) by (simp only: of_int_le_iff)
  also have "\<dots> \<le> \<bar>r\<bar>"
    by (simp add: n_def)
  finally have lo: "2 powi exponent r \<le> \<bar>r\<bar>"
    by (simp add: e)
  have "\<bar>r\<bar> < of_int (n + 1)"
    using floor_correct [of "\<bar>r\<bar>"] by (simp add: n_def)
  also have "\<dots> \<le> of_int (2 ^ nat (bitlen n))"
    using b(2) by (simp only: of_int_le_iff)
  also have "\<dots> = 2 powi (exponent r + 1)"
    using l by (simp add: power_int_def e)
  finally show ?thesis
    using lo by simp
next
  case False
  define s where "s = 1 / \<bar>r\<bar>"
  define m where "m = \<lceil>s\<rceil> - 1"
  have r: "0 < \<bar>r\<bar>" "\<bar>r\<bar> < 1"
    using assms False by simp_all
  then have s: "1 < s"
    by (simp add: s_def)
  have ms: "of_int m < s" "s \<le> of_int m + 1"
    using ceiling_correct [of s] by (simp_all add: m_def)
  have m: "1 \<le> m"
    using s by (simp add: m_def)
  then have b: "2 ^ nat (bitlen m - 1) \<le> m" "m < 2 ^ nat (bitlen m)"
    using bitlen_bounds [of m] by simp_all
  have l: "1 \<le> bitlen m"
    using m bitlen_eq_zero_iff [of m] bitlen_nonneg [of m] by linarith
  have e: "exponent r = - bitlen m"
    using False by (simp add: exponent_def m_def s_def)
  have "s \<le> of_int (m + 1)"
    using ms(2) by simp
  also have "\<dots> \<le> of_int (2 ^ nat (bitlen m))"
    using b(2) by (simp only: of_int_le_iff)
  finally have "s \<le> 2 ^ nat (bitlen m)"
    by simp
  then have "1 / 2 ^ nat (bitlen m) \<le> \<bar>r\<bar>"
    using r(1) by (simp add: s_def field_simps)
  moreover have "(2::rat) powi (- bitlen m) = 1 / 2 ^ nat (bitlen m)"
    using l by (simp add: power_int_def field_simps)
  ultimately have lo: "2 powi exponent r \<le> \<bar>r\<bar>"
    by (simp add: e)
  have "(of_int (2 ^ nat (bitlen m - 1)) :: rat) \<le> of_int m"
    using b(1) by (simp only: of_int_le_iff)
  also have "\<dots> < s"
    by (rule ms(1))
  finally have "2 ^ nat (bitlen m - 1) < s"
    by simp
  then have "\<bar>r\<bar> < 1 / 2 ^ nat (bitlen m - 1)"
    using r(1) by (simp add: s_def field_simps)
  moreover have "(2::rat) powi (- bitlen m + 1) = 1 / 2 ^ nat (bitlen m - 1)"
  proof (cases "bitlen m = 1")
    case True
    then show ?thesis by simp
  next
    case False
    with l have "- bitlen m + 1 < 0" by simp
    then show ?thesis
      by (simp add: power_int_def field_simps)
  qed
  ultimately show ?thesis
    using lo by (simp add: e)
qed


lemma exponent_eqI:
  assumes "2 powi e \<le> \<bar>r\<bar>" and "\<bar>r\<bar> < 2 powi (e + 1)"
  shows "exponent r = e"
proof -
  have "(0::rat) < 2 powi e"
    by simp
  then have "0 < \<bar>r\<bar>"
    using assms(1) by (rule less_le_trans)
  then have "r \<noteq> 0"
    by simp
  from exponent_bounds [OF this]
  have b: "2 powi exponent r \<le> \<bar>r\<bar>" "\<bar>r\<bar> < 2 powi (exponent r + 1)"
    by simp_all
  have "\<not> exponent r < e"
  proof
    assume "exponent r < e"
    then have "(2::rat) powi (exponent r + 1) \<le> 2 powi e"
      by (intro power_int_increasing) simp_all
    with b(2) assms(1) show False
      by simp
  qed
  moreover have "\<not> e < exponent r"
  proof
    assume "e < exponent r"
    then have "(2::rat) powi (e + 1) \<le> 2 powi exponent r"
      by (intro power_int_increasing) simp_all
    with b(1) assms(2) show False
      by simp
  qed
  ultimately show ?thesis
    by simp
qed

text \<open>Rounding to an integer: to the nearest one, to the even one of two that are
  equally near, and an integer to itself.\<close>

lemma round_half_even_nearest:
  assumes "\<bar>x - of_int k\<bar> < 1 / 2"
  shows "round_half_even x = k"
proof (cases "of_int k \<le> x")
  case True
  with assms have "\<lfloor>x\<rfloor> = k"
    by (intro floor_unique) (simp_all add: abs_if split: if_splits)
  with True assms show ?thesis
    by (simp add: round_half_even_def Let_def)
next
  case False
  with assms have f: "\<lfloor>x\<rfloor> = k - 1"
    by (intro floor_unique) (simp_all add: abs_if split: if_splits)
  with False assms show ?thesis
    by (simp add: round_half_even_def Let_def abs_if split: if_splits)
qed

lemma round_half_even_tie:
  assumes "x = of_int f + 1 / 2"
  shows "round_half_even x = (if even f then f else f + 1)"
proof -
  have "\<lfloor>x\<rfloor> = f"
    using assms by (intro floor_unique) simp_all
  then show ?thesis
    using assms by (simp add: round_half_even_def Let_def)
qed

lemma round_half_even_of_int: "round_half_even (of_int k) = k"
  by (rule round_half_even_nearest) simp

lemma round_half_even_bound:
  assumes "\<bar>x\<bar> \<le> of_int n"
  shows "\<bar>round_half_even x\<bar> \<le> n"
proof -
  have "round_half_even x = \<lfloor>x\<rfloor> \<or> round_half_even x = \<lceil>x\<rceil>"
    by (auto simp: round_half_even_def Let_def ceiling_altdef)
  moreover have "- n \<le> \<lfloor>x\<rfloor>" "\<lceil>x\<rceil> \<le> n"
    using assms by (simp_all add: le_floor_iff ceiling_le_iff abs_le_iff) 
  moreover have "\<lfloor>x\<rfloor> \<le> n" "- n \<le> \<lceil>x\<rceil>"
    using assms floor_le_ceiling [of x]
    by (simp_all add: le_floor_iff ceiling_le_iff floor_le_iff le_ceiling_iff abs_le_iff)
  ultimately show ?thesis
    by (auto simp: abs_le_iff)
qed


text \<open>
  How a rounding is evaluated. For a rational between \<open>2^e\<close> and \<open>2^(e+1)\<close>, the
  exponent \<open>e\<close> in the normal range, the double is the rounded multiple of \<open>2^(e-52)\<close>;
  its significand has at most 53 bits and it is finite.
\<close>

lemma two_powi_split: "(2::rat) powi (e + 1) = 2 ^ 53 * 2 powi (e - 52)"
proof -
  have "(2::rat) powi (e + 1) = 2 powi (53 + (e - 52))"
    by (rule arg_cong [where f = "\<lambda>n. 2 powi n"]) simp
  also have "\<dots> = 2 powi 53 * 2 powi (e - 52)"
    by (subst power_int_add) simp_all
  finally show ?thesis
    by simp
qed

lemma significand_bound:
  assumes "\<bar>r\<bar> < 2 powi (e + 1)"
  shows "\<bar>round_half_even (r / 2 powi (e - 52))\<bar> \<le> 2 ^ 53"
proof -
  have u: "(0::rat) < 2 powi (e - 52)"
    by simp
  have "\<bar>r / 2 powi (e - 52)\<bar> = \<bar>r\<bar> / 2 powi (e - 52)"
    using u by (simp add: abs_divide)
  also have "\<dots> < 2 ^ 53"
    using assms u by (simp add: two_powi_split divide_less_eq)
  finally have "\<bar>r / 2 powi (e - 52)\<bar> \<le> of_int (2 ^ 53)"
    by simp
  then show ?thesis
    by (rule round_half_even_bound)
qed

lemma round_double_finite:
  assumes "e \<le> 1022" and "\<bar>k\<bar> \<le> 2 ^ 53"
  shows "\<not> 2 ^ 1024 \<le> of_int k * (2::rat) powi (e - 52)"
    and "\<not> of_int k * (2::rat) powi (e - 52) \<le> - (2 ^ 1024)"
proof -
  have "\<bar>of_int k * (2::rat) powi (e - 52)\<bar> = of_int \<bar>k\<bar> * 2 powi (e - 52)"
    by (simp add: abs_mult)
  also have "\<dots> \<le> of_int (2 ^ 53) * 2 powi (e - 52)"
    using assms(2) by (intro mult_right_mono) (simp_all only: of_int_le_iff, simp)
  also have "\<dots> = 2 powi (e + 1)"
    by (simp add: two_powi_split)
  also have "\<dots> \<le> 2 powi 1023"
    using assms(1) by (intro power_int_increasing) simp_all
  also have "\<dots> < 2 ^ 1024"
    by simp
  finally have "\<bar>of_int k * (2::rat) powi (e - 52)\<bar> < 2 ^ 1024" .
  then show "\<not> 2 ^ 1024 \<le> of_int k * (2::rat) powi (e - 52)"
    and "\<not> of_int k * (2::rat) powi (e - 52) \<le> - (2 ^ 1024)"
    by (simp_all add: abs_less_iff)
qed

lemma round_double_eval:
  assumes "- 1022 \<le> e" and "e \<le> 1022"
    and "2 powi e \<le> \<bar>r\<bar>" and "\<bar>r\<bar> < 2 powi (e + 1)"
    and "round_half_even (r / 2 powi (e - 52)) = k"
  shows "round_double r = Fin (of_int k * 2 powi (e - 52))"
proof -
  have ex: "exponent r = e"
    using assms(3,4) by (rule exponent_eqI)
  have "(0::rat) < 2 powi e"
    by simp
  then have "0 < \<bar>r\<bar>"
    using assms(3) by (rule less_le_trans)
  then have r: "r \<noteq> 0"
    by simp
  have "\<bar>k\<bar> \<le> 2 ^ 53"
    using significand_bound [OF assms(4)] by (simp add: assms(5))
  from round_double_finite [OF assms(2) this] show ?thesis
    using assms(1) by (simp add: round_double_def r ex assms(5) Let_def max_def)
qed

lemma round_double_nearest:
  assumes "- 1022 \<le> e" and "e \<le> 1022"
    and "2 powi e \<le> \<bar>r\<bar>" and "\<bar>r\<bar> < 2 powi (e + 1)"
    and "\<bar>r / 2 powi (e - 52) - of_int k\<bar> < 1 / 2"
  shows "round_double r = Fin (of_int k * 2 powi (e - 52))"
  using assms(1-4) round_half_even_nearest [OF assms(5)] by (rule round_double_eval)

text \<open>A double rounds to itself: rounding a sum or a product twice changes nothing.\<close>

lemma exponent_less:
  assumes "r \<noteq> 0" and "\<bar>r\<bar> < 2 powi (e + 1)"
  shows "exponent r \<le> e"
proof (rule ccontr)
  assume "\<not> exponent r \<le> e"
  then have "(2::rat) powi (e + 1) \<le> 2 powi exponent r"
    by (intro power_int_increasing) simp_all
  with exponent_bounds [OF assms(1)] assms(2) show False
    by simp
qed

lemma round_double_multiple:
  assumes "v = of_int j * 2 powi (max (exponent v) (- 1022) - 52)"
    and "\<not> 2 ^ 1024 \<le> v" and "\<not> v \<le> - (2 ^ 1024)"
  shows "round_double v = Fin v"
proof (cases "v = 0")
  case True
  then show ?thesis
    by (simp add: round_double_def)
next
  case False
  define u where "u = (2::rat) powi (max (exponent v) (- 1022) - 52)"
  have u: "u \<noteq> 0"
    by (simp add: u_def)
  have "v / u = of_int j"
    using assms(1) u by (simp add: u_def [symmetric])
  then have "round_half_even (v / u) = j"
    by (simp add: round_half_even_of_int)
  then have "of_int (round_half_even (v / u)) * u = v"
    using assms(1) by (simp add: u_def [symmetric])
  then show ?thesis
    using False assms(2,3) by (simp add: round_double_def Let_def u_def [symmetric])
qed

lemma round_double_idem:
  assumes "round_double r = Fin v"
  shows "round_double v = Fin v"
proof (cases "r = 0")
  case True
  with assms show ?thesis
    by (simp add: round_double_def)
next
  case r: False
  define e where "e = max (exponent r) (- 1022)"
  define k where "k = round_half_even (r / 2 powi (e - 52))"
  have v: "v = of_int k * 2 powi (e - 52)"
    and fin: "\<not> 2 ^ 1024 \<le> v" "\<not> v \<le> - (2 ^ 1024)"
    using assms r
    by (simp_all add: round_double_def Let_def e_def [symmetric] k_def [symmetric]
        split: if_splits)
  have e: "- 1022 \<le> e" "exponent r \<le> e"
    by (simp_all add: e_def)
  have "\<bar>r\<bar> < 2 powi (exponent r + 1)"
    using exponent_bounds [OF r] by simp
  also have "\<dots> \<le> 2 powi (e + 1)"
    using e(2) by (intro power_int_increasing) simp_all
  finally have k: "\<bar>k\<bar> \<le> 2 ^ 53"
    unfolding k_def by (rule significand_bound)
  show ?thesis
  proof (cases "v = 0")
    case True
    then show ?thesis
      by (simp add: round_double_def)
  next
    case v0: False
    have av: "\<bar>v\<bar> = of_int \<bar>k\<bar> * 2 powi (e - 52)"
      by (simp add: v abs_mult)
    show ?thesis
    proof (cases "\<bar>k\<bar> = 2 ^ 53")
      case True
      then have "\<bar>v\<bar> = 2 powi (e + 1)"
        by (simp add: av two_powi_split)
      then have "2 powi (e + 1) \<le> \<bar>v\<bar>" "\<bar>v\<bar> < 2 powi (e + 1 + 1)"
        by (simp_all add: power_int_strict_increasing)
      then have ev: "exponent v = e + 1"
        by (rule exponent_eqI)
      have "even \<bar>k\<bar>"
        unfolding True by simp
      then have "even k"
        by simp
      then obtain j where j: "k = 2 * j"
        by (elim evenE)
      have "(2::rat) powi (e - 52) = 2 powi (- 1 + (e + 1 - 52))"
        by (rule arg_cong [where f = "\<lambda>n. 2 powi n"]) simp
      also have "\<dots> = 2 powi (- 1) * 2 powi (e + 1 - 52)"
        by (subst power_int_add) simp_all
      finally have "v = of_int j * 2 powi (e + 1 - 52)"
        by (simp add: v j)
      moreover have "max (exponent v) (- 1022) = e + 1"
        using e(1) ev by simp
      ultimately have "v = of_int j * 2 powi (max (exponent v) (- 1022) - 52)"
        by (simp only:)
      then show ?thesis
        using fin by (rule round_double_multiple)
    next
      case False
      with k have "\<bar>k\<bar> < 2 ^ 53"
        by simp
      then have "(of_int \<bar>k\<bar> :: rat) < of_int (2 ^ 53)"
        by (simp only: of_int_less_iff)
      then have "\<bar>v\<bar> < 2 ^ 53 * 2 powi (e - 52)"
        by (simp add: av)
      then have "\<bar>v\<bar> < 2 powi (e + 1)"
        by (simp add: two_powi_split)
      with v0 have "exponent v \<le> e"
        by (rule exponent_less)
      with e(1) have le: "max (exponent v) (- 1022) \<le> e"
        by simp
      define d where "d = nat (e - max (exponent v) (- 1022))"
      have "(2::rat) powi (e - 52) = 2 powi (int d + (max (exponent v) (- 1022) - 52))"
        using le by (intro arg_cong [where f = "\<lambda>n. 2 powi n"]) (simp add: d_def)
      also have "\<dots> = 2 powi (int d) * 2 powi (max (exponent v) (- 1022) - 52)"
        by (subst power_int_add) simp_all
      finally have "v = of_int (k * 2 ^ d) * 2 powi (max (exponent v) (- 1022) - 52)"
        by (simp add: v)
      then show ?thesis
        using fin by (rule round_double_multiple)
    qed
  qed
qed

lemma round_double_zero [simp]: "round_double 0 = Fin 0"
  by (simp add: round_double_def)

text \<open>Sums and products are doubles, so adding zero to them, or adding them to zero,
  gives them back.\<close>

lemma times_number_Fin: "times_number a b = Fin v \<Longrightarrow> round_double v = Fin v"
  by (cases a; cases b) (auto simp: infinity_of_def round_double_idem split: if_splits)

lemma plus_number_Fin: "plus_number a b = Fin v \<Longrightarrow> round_double v = Fin v"
  by (cases a; cases b) (auto simp: round_double_idem)

lemma plus_number_zero_times [simp]:
  "plus_number (Fin 0) (times_number a b) = times_number a b"
  by (cases "times_number a b") (simp_all add: times_number_Fin)

lemma plus_number_plus_zero [simp]:
  "plus_number (plus_number a b) (Fin 0) = plus_number a b"
  by (cases "plus_number a b") (simp_all add: plus_number_Fin)

lemma times_number_zero [simp]: "times_number (Fin 0) (Fin c) = Fin 0"
  by (simp add: round_double_def)

lemma tokens_zero: "\<not> truthy_count f \<Longrightarrow> tokens f = Fin 0"
  by (auto simp: truthy_count_def tokens_def number_of_count_def round_double_def
      split: option.splits)

section \<open>Properties of the cost computation\<close>

text \<open>The cache rates of the tables are positive doubles, and so are their millionths.\<close>

lemma cache_rates:
  assumes "w \<in> {6, 3 / 10, 30, 3 / 2, 16 / 10, 8 / 100}"
  shows "truthy_number (number_of_literal w) \<and> (\<exists>c. per_million (number_of_literal w) = Fin c)"
proof -
  have s1: "number_of_literal 6 = Fin 6"
    using round_double_nearest [where r = "6" and e = "2" and k = "6755399441055744"]
    by (simp add: number_of_literal_def)
  have s2: "per_million (Fin 6) = Fin (1770887431076117 / 2 ^ 68)"
    using round_double_nearest [where r = "6 / 1000000" and e = "-18" and k = "7083549724304468"]
    by simp
  have s3: "number_of_literal (3 / 10) = Fin (5404319552844595 / 2 ^ 54)"
    using round_double_nearest [where r = "3 / 10" and e = "-2" and k = "5404319552844595"]
    by (simp add: number_of_literal_def)
  have s4: "per_million (Fin (5404319552844595 / 2 ^ 54)) = Fin (2833419889721787 / 2 ^ 73)"
    using round_double_nearest [where r = "(5404319552844595 / 2 ^ 54) / 1000000" and e = "-22" and k = "5666839779443574"]
    by simp
  have s5: "number_of_literal 30 = Fin 30"
    using round_double_nearest [where r = "30" and e = "4" and k = "8444249301319680"]
    by (simp add: number_of_literal_def)
  have s6: "per_million (Fin 30) = Fin (8854437155380585 / 2 ^ 68)"
    using round_double_nearest [where r = "30 / 1000000" and e = "-16" and k = "8854437155380585"]
    by simp
  have s7: "number_of_literal (3 / 2) = Fin (3 / 2 ^ 1)"
    using round_double_nearest [where r = "3 / 2" and e = "0" and k = "6755399441055744"]
    by (simp add: number_of_literal_def)
  have s8: "per_million (Fin (3 / 2 ^ 1)) = Fin (1770887431076117 / 2 ^ 70)"
    using round_double_nearest [where r = "(3 / 2 ^ 1) / 1000000" and e = "-20" and k = "7083549724304468"]
    by simp
  have s9: "number_of_literal (16 / 10) = Fin (3602879701896397 / 2 ^ 51)"
    using round_double_nearest [where r = "16 / 10" and e = "0" and k = "7205759403792794"]
    by (simp add: number_of_literal_def)
  have s10: "per_million (Fin (3602879701896397 / 2 ^ 51)) = Fin (7555786372591433 / 2 ^ 72)"
    using round_double_nearest [where r = "(3602879701896397 / 2 ^ 51) / 1000000" and e = "-20" and k = "7555786372591433"]
    by simp
  have s11: "number_of_literal (8 / 100) = Fin (5764607523034235 / 2 ^ 56)"
    using round_double_nearest [where r = "8 / 100" and e = "-4" and k = "5764607523034235"]
    by (simp add: number_of_literal_def)
  have s12: "per_million (Fin (5764607523034235 / 2 ^ 56)) = Fin (3022314549036573 / 2 ^ 75)"
    using round_double_nearest [where r = "(5764607523034235 / 2 ^ 56) / 1000000" and e = "-24" and k = "6044629098073146"]
    by simp
  from assms consider "w = 6" | "w = 3 / 10" | "w = 30" | "w = 3 / 2" | "w = 16 / 10" | "w = 8 / 100"
    by auto
  then show ?thesis
    by cases (simp_all only: s1 s2 s3 s4 s5 s6 s7 s8 s9 s10 s11 s12 truthy_number.simps number.inject simp_thms, simp_all)
qed

lemma getModelPricing_entries:
  assumes "getModelPricing m = Rates p"
  shows "p \<in> {sonnet_4_5, opus_4_5, haiku_4_5, gpt_4_turbo, gpt_4, gpt_3_5_turbo,
              gemini_1_5_pro, gemini_1_5_flash, gemini_pro}"
  using assms
  by (auto simp: getModelPricing_def Let_def table_hit_def obj_get_def ANTHROPIC_PRICING_def
      OPENAI_PRICING_def GOOGLE_PRICING_def split: option.splits property.splits if_splits)

lemma entry_cache_rates:
  assumes "p \<in> {sonnet_4_5, opus_4_5, haiku_4_5, gpt_4_turbo, gpt_4, gpt_3_5_turbo,
              gemini_1_5_pro, gemini_1_5_flash, gemini_pro}"
  shows "cache_write_price p = Some w \<Longrightarrow> w \<in> {6, 3 / 10, 30, 3 / 2, 16 / 10, 8 / 100}"
    and "cache_read_price p = Some w \<Longrightarrow> w \<in> {6, 3 / 10, 30, 3 / 2, 16 / 10, 8 / 100}"
  using assms
  by (auto simp: sonnet_4_5_def opus_4_5_def haiku_4_5_def gpt_4_turbo_def gpt_4_def
      gpt_3_5_turbo_def gemini_1_5_pro_def gemini_1_5_flash_def gemini_pro_def)

text \<open>
  A cache term of the code and of the specification. The code adds the term when the
  counter (and, in \<open>review.js\<close>, the rate) is truthy; the specification adds the product
  whenever the entry has the rate. They agree: a counter that is absent or zero gives the
  product zero, and adding zero to a double changes nothing.
\<close>

lemma times_rate_spec: "times_rate f (Some w) = times_number (tokens f) (rate w)"
  by (simp add: times_rate_def or_zero_def tokens_def rate_def)

lemma cache_term:
  assumes "w \<in> {6, 3 / 10, 30, 3 / 2, 16 / 10, 8 / 100}" and "plus_number c (Fin 0) = c"
  shows "(if truthy_count f \<and> truthy_rate (Some w) then plus_number c (times_rate f (Some w))
          else c)
         = plus_number c (times_number (tokens f) (rate w))"
    and "(if truthy_count f then plus_number c (times_rate f (Some w)) else c)
         = plus_number c (times_number (tokens f) (rate w))"
proof -
  from cache_rates [OF assms(1)] obtain x
    where t: "truthy_rate (Some w)" and x: "rate w = Fin x"
    by (auto simp: truthy_rate_def rate_def)
  show "(if truthy_count f \<and> truthy_rate (Some w) then plus_number c (times_rate f (Some w))
          else c)
         = plus_number c (times_number (tokens f) (rate w))"
    by (simp add: t times_rate_spec tokens_zero x assms(2))
  show "(if truthy_count f then plus_number c (times_rate f (Some w)) else c)
         = plus_number c (times_number (tokens f) (rate w))"
    by (simp add: times_rate_spec tokens_zero x assms(2))
qed

lemma cache_step:
  assumes "\<And>w. price = Some w \<Longrightarrow> w \<in> {6, 3 / 10, 30, 3 / 2, 16 / 10, 8 / 100}"
    and "plus_number c (Fin 0) = c"
  shows "(if truthy_count f \<and> truthy_rate price then plus_number c (times_rate f price) else c)
         = (case price of
              None \<Rightarrow> c
            | Some w \<Rightarrow> plus_number c (times_number (tokens f) (rate w)))"
proof (cases price)
  case None
  then show ?thesis
    by (simp add: truthy_rate_def)
next
  case (Some w)
  from cache_term(1) [OF assms(1) [OF Some] assms(2)] show ?thesis
    by (simp only: Some option.case)
qed

lemma cache_step_zero:
  assumes "plus_number c (Fin 0) = c"
  shows "plus_number
           (case price of
              None \<Rightarrow> c
            | Some w \<Rightarrow> plus_number c (times_number (tokens f) (rate w))) (Fin 0)
         = (case price of
              None \<Rightarrow> c
            | Some w \<Rightarrow> plus_number c (times_number (tokens f) (rate w)))"
  using assms by (cases price) simp_all

lemma cache_step_count:
  assumes "price = Some w" and "w \<in> {6, 3 / 10, 30, 3 / 2, 16 / 10, 8 / 100}"
    and "plus_number c (Fin 0) = c"
  shows "(if truthy_count f then plus_number c (times_rate f price) else c)
         = (case price of
              None \<Rightarrow> c
            | Some w \<Rightarrow> plus_number c (times_number (tokens f) (rate w)))"
  using cache_term(2) [OF assms(2,3)] by (simp only: assms(1) option.case)

text \<open>
  Whenever the lookup yields an entry of the tables, \<open>calculateCost\<close> (of \<open>review.js\<close>
  and of each adapter) is the specification's formula, evaluated in doubles: input and
  output tokens at their rates, plus the cache tokens at the cache rates where the entry
  defines them, an absent counter counting as zero.
\<close>

lemma calculateCost_spec:
  assumes "getModelPricing m = Rates p"
  shows "calculateCost u m = spec_cost p u"
proof -
  note e = entry_cache_rates [OF getModelPricing_entries [OF assms]]
  define c where "c = plus_number
                   (times_number (tokens (input_tokens u)) (rate (input_price p)))
                   (times_number (tokens (output_tokens u)) (rate (output_price p)))"
  define d where "d = (case cache_write_price p of
                         None \<Rightarrow> c
                       | Some w \<Rightarrow>
                           plus_number c
                             (times_number (tokens (cache_creation_input_tokens u)) (rate w)))"
  have z: "plus_number c (Fin 0) = c"
    by (simp add: c_def)
  have "(if truthy_count (cache_creation_input_tokens u) \<and> truthy_rate (cache_write_price p)
         then plus_number c (times_rate (cache_creation_input_tokens u) (cache_write_price p))
         else c) = d"
    unfolding d_def using e(1) z by (rule cache_step)
  moreover have "plus_number d (Fin 0) = d"
    unfolding d_def using z by (rule cache_step_zero)
  with e(2)
  have "(if truthy_count (cache_read_input_tokens u) \<and> truthy_rate (cache_read_price p)
         then plus_number d (times_rate (cache_read_input_tokens u) (cache_read_price p))
         else d)
        = (case cache_read_price p of
             None \<Rightarrow> d
           | Some w \<Rightarrow>
               plus_number d (times_number (tokens (cache_read_input_tokens u)) (rate w)))"
    by (rule cache_step)
  ultimately show ?thesis
    unfolding calculateCost_def spec_cost_def assms Let_def prices.case times_rate_spec
      plus_number_zero_times c_def [symmetric] d_def [symmetric]
    by (simp only:)
qed

lemma AnthropicProvider_getModelPricing_entries:
  assumes "AnthropicProvider_getModelPricing n = Rates p"
  shows "p \<in> {sonnet_4_5, opus_4_5, haiku_4_5}"
  using assms
  by (auto simp: AnthropicProvider_getModelPricing_def Let_def table_hit_def obj_get_def
      ANTHROPIC_PRICING_def split: option.splits property.splits if_splits)

lemma AnthropicProvider_calculateCost_spec:
  assumes "AnthropicProvider_getModelPricing (or_model modelName this_model) = Rates p"
  shows "AnthropicProvider_calculateCost this_model u modelName = spec_cost p u"
proof -
  note p = AnthropicProvider_getModelPricing_entries [OF assms]
  then have e: "p \<in> {sonnet_4_5, opus_4_5, haiku_4_5, gpt_4_turbo, gpt_4, gpt_3_5_turbo,
                       gemini_1_5_pro, gemini_1_5_flash, gemini_pro}"
    by auto
  from p consider "p = sonnet_4_5" | "p = opus_4_5" | "p = haiku_4_5"
    by auto
  then have "cache_write_price p \<noteq> None \<and> cache_read_price p \<noteq> None"
    by cases (simp_all add: sonnet_4_5_def opus_4_5_def haiku_4_5_def)
  then obtain w r where "cache_write_price p = Some w" and "cache_read_price p = Some r"
    by blast
  with entry_cache_rates [OF e]
  have w: "cache_write_price p = Some w" "w \<in> {6, 3 / 10, 30, 3 / 2, 16 / 10, 8 / 100}"
    and r: "cache_read_price p = Some r" "r \<in> {6, 3 / 10, 30, 3 / 2, 16 / 10, 8 / 100}"
    by blast+
  define c where "c = plus_number
                   (times_number (tokens (input_tokens u)) (rate (input_price p)))
                   (times_number (tokens (output_tokens u)) (rate (output_price p)))"
  define d where "d = (case cache_write_price p of
                         None \<Rightarrow> c
                       | Some w \<Rightarrow>
                           plus_number c
                             (times_number (tokens (cache_creation_input_tokens u)) (rate w)))"
  have z: "plus_number c (Fin 0) = c"
    by (simp add: c_def)
  have "(if truthy_count (cache_creation_input_tokens u)
         then plus_number c (times_rate (cache_creation_input_tokens u) (cache_write_price p))
         else c) = d"
    unfolding d_def using w z by (rule cache_step_count)
  moreover have "plus_number d (Fin 0) = d"
    unfolding d_def using z by (rule cache_step_zero)
  with r
  have "(if truthy_count (cache_read_input_tokens u)
         then plus_number d (times_rate (cache_read_input_tokens u) (cache_read_price p))
         else d)
        = (case cache_read_price p of
             None \<Rightarrow> d
           | Some w \<Rightarrow>
               plus_number d (times_number (tokens (cache_read_input_tokens u)) (rate w)))"
    by (rule cache_step_count)
  ultimately show ?thesis
    unfolding AnthropicProvider_calculateCost_def spec_cost_def assms Let_def prices.case
      times_rate_spec plus_number_zero_times c_def [symmetric] d_def [symmetric]
    by (simp only:)
qed

lemma OpenAIProvider_rates_no_cache:
  "OpenAIProvider_getModelPricing n = Rates p
   \<Longrightarrow> cache_write_price p = None \<and> cache_read_price p = None"
  by (auto simp: OpenAIProvider_getModelPricing_def table_hit_def obj_get_def
      OPENAI_PRICING_def gpt_4_def gpt_4_turbo_def gpt_3_5_turbo_def
      split: option.splits property.splits if_splits)

lemma GoogleProvider_rates_no_cache:
  "GoogleProvider_getModelPricing n = Rates p
   \<Longrightarrow> cache_write_price p = None \<and> cache_read_price p = None"
  by (auto simp: GoogleProvider_getModelPricing_def table_hit_def obj_get_def
      GOOGLE_PRICING_def gemini_pro_def gemini_1_5_pro_def gemini_1_5_flash_def
      split: option.splits property.splits if_splits)

lemma OpenAIProvider_calculateCost_spec:
  assumes "OpenAIProvider_getModelPricing (or_model modelName this_model) = Rates p"
  shows "OpenAIProvider_calculateCost this_model u modelName = spec_cost p u"
  using OpenAIProvider_rates_no_cache [OF assms]
  by (simp add: OpenAIProvider_calculateCost_def spec_cost_def assms Let_def times_rate_spec)

lemma GoogleProvider_calculateCost_spec:
  assumes "GoogleProvider_getModelPricing (or_model modelName this_model) = Rates p"
  shows "GoogleProvider_calculateCost this_model u modelName = spec_cost p u"
  using GoogleProvider_rates_no_cache [OF assms]
  by (simp add: GoogleProvider_calculateCost_def spec_cost_def assms Let_def times_rate_spec)

text \<open>
  The scenarios. For the usage 1000 in, 500 out, 200 cache-write and 100 cache-read
  tokens on the Sonnet entry the cost is the double \<open>0.01173\<close>, and without the cache
  fields it is the double \<open>0.0105\<close>. The same 1000 and 500 tokens cost
  \<open>0.060000000000000005\<close> on the GPT-4 entry, one step above the double \<open>0.06\<close>, and
  \<open>0.0008750000000000001\<close> on the Gemini 1.5 Flash entry, where the exact sum lies
  half-way between two doubles and goes to the even one.
\<close>

lemma Sonnet_scenario_with_cache:
  "spec_cost sonnet_4_5
     \<lparr>input_tokens = Some 1000, output_tokens = Some 500,
      cache_creation_input_tokens = Some 200, cache_read_input_tokens = Some 100,
      total_tokens = None\<rparr> = number_of_literal (1173 / 100000)"
proof -
  have s1: "number_of_count 1000 = Fin 1000"
    using round_double_nearest [where r = "1000" and e = "9" and k = "8796093022208000"]
    by (simp add: number_of_count_def)
  have s2: "number_of_literal 3 = Fin 3"
    using round_double_nearest [where r = "3" and e = "1" and k = "6755399441055744"]
    by (simp add: number_of_literal_def)
  have s3: "per_million (Fin 3) = Fin (1770887431076117 / 2 ^ 69)"
    using round_double_nearest [where r = "3 / 1000000" and e = "-19" and k = "7083549724304468"]
    by simp
  have s4: "times_number (Fin 1000) (Fin (1770887431076117 / 2 ^ 69)) = Fin (3458764513820541 / 2 ^ 60)"
    using round_double_nearest [where r = "1000 * (1770887431076117 / 2 ^ 69)" and e = "-9" and k = "6917529027641082"]
    by simp
  have s5: "number_of_count 500 = Fin 500"
    using round_double_nearest [where r = "500" and e = "8" and k = "8796093022208000"]
    by (simp add: number_of_count_def)
  have s6: "number_of_literal 15 = Fin 15"
    using round_double_nearest [where r = "15" and e = "3" and k = "8444249301319680"]
    by (simp add: number_of_literal_def)
  have s7: "per_million (Fin 15) = Fin (8854437155380585 / 2 ^ 69)"
    using round_double_nearest [where r = "15 / 1000000" and e = "-17" and k = "8854437155380585"]
    by simp
  have s8: "times_number (Fin 500) (Fin (8854437155380585 / 2 ^ 69)) = Fin (8646911284551353 / 2 ^ 60)"
    using round_double_nearest [where r = "500 * (8854437155380585 / 2 ^ 69)" and e = "-8" and k = "8646911284551353"]
    by simp
  have s9: "plus_number (Fin (3458764513820541 / 2 ^ 60)) (Fin (8646911284551353 / 2 ^ 60)) = Fin (6052837899185947 / 2 ^ 59)"
    using round_double_nearest [where r = "(3458764513820541 / 2 ^ 60) + (8646911284551353 / 2 ^ 60)" and e = "-7" and k = "6052837899185947"]
    by simp
  have s10: "number_of_count 200 = Fin 200"
    using round_double_nearest [where r = "200" and e = "7" and k = "7036874417766400"]
    by (simp add: number_of_count_def)
  have s11: "number_of_literal 6 = Fin 6"
    using round_double_nearest [where r = "6" and e = "2" and k = "6755399441055744"]
    by (simp add: number_of_literal_def)
  have s12: "per_million (Fin 6) = Fin (1770887431076117 / 2 ^ 68)"
    using round_double_nearest [where r = "6 / 1000000" and e = "-18" and k = "7083549724304468"]
    by simp
  have s13: "times_number (Fin 200) (Fin (1770887431076117 / 2 ^ 68)) = Fin (2767011611056433 / 2 ^ 61)"
    using round_double_nearest [where r = "200 * (1770887431076117 / 2 ^ 68)" and e = "-10" and k = "5534023222112866"]
    by simp
  have s14: "plus_number (Fin (6052837899185947 / 2 ^ 59)) (Fin (2767011611056433 / 2 ^ 61)) = Fin (6744590801950055 / 2 ^ 59)"
    using round_double_nearest [where r = "(6052837899185947 / 2 ^ 59) + (2767011611056433 / 2 ^ 61)" and e = "-7" and k = "6744590801950055"]
    by simp
  have s15: "number_of_count 100 = Fin 100"
    using round_double_nearest [where r = "100" and e = "6" and k = "7036874417766400"]
    by (simp add: number_of_count_def)
  have s16: "number_of_literal (3 / 10) = Fin (5404319552844595 / 2 ^ 54)"
    using round_double_nearest [where r = "3 / 10" and e = "-2" and k = "5404319552844595"]
    by (simp add: number_of_literal_def)
  have s17: "per_million (Fin (5404319552844595 / 2 ^ 54)) = Fin (2833419889721787 / 2 ^ 73)"
    using round_double_nearest [where r = "(5404319552844595 / 2 ^ 54) / 1000000" and e = "-22" and k = "5666839779443574"]
    by simp
  have s18: "times_number (Fin 100) (Fin (2833419889721787 / 2 ^ 73)) = Fin (1106804644422573 / 2 ^ 65)"
    using round_double_nearest [where r = "100 * (2833419889721787 / 2 ^ 73)" and e = "-16" and k = "8854437155380584"]
    by simp
  have s19: "plus_number (Fin (6744590801950055 / 2 ^ 59)) (Fin (1106804644422573 / 2 ^ 65)) = Fin (3380942312259579 / 2 ^ 58)"
    using round_double_nearest [where r = "(6744590801950055 / 2 ^ 59) + (1106804644422573 / 2 ^ 65)" and e = "-7" and k = "6761884624519158"]
    by simp
  have s20: "number_of_literal (1173 / 100000) = Fin (3380942312259579 / 2 ^ 58)"
    using round_double_nearest [where r = "1173 / 100000" and e = "-7" and k = "6761884624519158"]
    by (simp add: number_of_literal_def)
  show ?thesis
    unfolding spec_cost_def sonnet_4_5_def
    by (simp only: pricing.select_convs usage.select_convs option.case Let_def tokens_def rate_def s1 s2 s3 s4 s5 s6 s7 s8 s9 s10 s11 s12 s13 s14 s15 s16 s17 s18 s19 s20)
qed

lemma Sonnet_scenario_without_cache:
  "spec_cost sonnet_4_5
     \<lparr>input_tokens = Some 1000, output_tokens = Some 500,
      cache_creation_input_tokens = None, cache_read_input_tokens = None,
      total_tokens = None\<rparr> = number_of_literal (105 / 10000)"
proof -
  have s1: "number_of_count 1000 = Fin 1000"
    using round_double_nearest [where r = "1000" and e = "9" and k = "8796093022208000"]
    by (simp add: number_of_count_def)
  have s2: "number_of_literal 3 = Fin 3"
    using round_double_nearest [where r = "3" and e = "1" and k = "6755399441055744"]
    by (simp add: number_of_literal_def)
  have s3: "per_million (Fin 3) = Fin (1770887431076117 / 2 ^ 69)"
    using round_double_nearest [where r = "3 / 1000000" and e = "-19" and k = "7083549724304468"]
    by simp
  have s4: "times_number (Fin 1000) (Fin (1770887431076117 / 2 ^ 69)) = Fin (3458764513820541 / 2 ^ 60)"
    using round_double_nearest [where r = "1000 * (1770887431076117 / 2 ^ 69)" and e = "-9" and k = "6917529027641082"]
    by simp
  have s5: "number_of_count 500 = Fin 500"
    using round_double_nearest [where r = "500" and e = "8" and k = "8796093022208000"]
    by (simp add: number_of_count_def)
  have s6: "number_of_literal 15 = Fin 15"
    using round_double_nearest [where r = "15" and e = "3" and k = "8444249301319680"]
    by (simp add: number_of_literal_def)
  have s7: "per_million (Fin 15) = Fin (8854437155380585 / 2 ^ 69)"
    using round_double_nearest [where r = "15 / 1000000" and e = "-17" and k = "8854437155380585"]
    by simp
  have s8: "times_number (Fin 500) (Fin (8854437155380585 / 2 ^ 69)) = Fin (8646911284551353 / 2 ^ 60)"
    using round_double_nearest [where r = "500 * (8854437155380585 / 2 ^ 69)" and e = "-8" and k = "8646911284551353"]
    by simp
  have s9: "plus_number (Fin (3458764513820541 / 2 ^ 60)) (Fin (8646911284551353 / 2 ^ 60)) = Fin (6052837899185947 / 2 ^ 59)"
    using round_double_nearest [where r = "(3458764513820541 / 2 ^ 60) + (8646911284551353 / 2 ^ 60)" and e = "-7" and k = "6052837899185947"]
    by simp
  have s10: "number_of_literal (105 / 10000) = Fin (6052837899185947 / 2 ^ 59)"
    using round_double_nearest [where r = "105 / 10000" and e = "-7" and k = "6052837899185947"]
    by (simp add: number_of_literal_def)
  have s11: "number_of_literal 6 = Fin 6"
    using round_double_nearest [where r = "6" and e = "2" and k = "6755399441055744"]
    by (simp add: number_of_literal_def)
  have s12: "per_million (Fin 6) = Fin (1770887431076117 / 2 ^ 68)"
    using round_double_nearest [where r = "6 / 1000000" and e = "-18" and k = "7083549724304468"]
    by simp
  have s13: "number_of_literal (3 / 10) = Fin (5404319552844595 / 2 ^ 54)"
    using round_double_nearest [where r = "3 / 10" and e = "-2" and k = "5404319552844595"]
    by (simp add: number_of_literal_def)
  have s14: "per_million (Fin (5404319552844595 / 2 ^ 54)) = Fin (2833419889721787 / 2 ^ 73)"
    using round_double_nearest [where r = "(5404319552844595 / 2 ^ 54) / 1000000" and e = "-22" and k = "5666839779443574"]
    by simp
  have s15: "plus_number (Fin (6052837899185947 / 2 ^ 59)) (Fin 0) = Fin (6052837899185947 / 2 ^ 59)"
    using round_double_nearest [where r = "(6052837899185947 / 2 ^ 59) + 0" and e = "-7" and k = "6052837899185947"]
    by simp
  show ?thesis
    unfolding spec_cost_def sonnet_4_5_def
    by (simp only: pricing.select_convs usage.select_convs option.case Let_def tokens_def rate_def s1 s2 s3 s4 s5 s6 s7 s8 s9 s10 s11 s12 s13 s14 s15 times_number_zero)
qed

lemma GPT_4_example:
  "spec_cost gpt_4
     \<lparr>input_tokens = Some 1000, output_tokens = Some 500,
      cache_creation_input_tokens = None, cache_read_input_tokens = None,
      total_tokens = None\<rparr> = number_of_literal (60000000000000005 / 1000000000000000000)"
  "number_of_literal (60000000000000005 / 1000000000000000000) \<noteq> number_of_literal (6 / 100)"
proof -
  have s1: "number_of_count 1000 = Fin 1000"
    using round_double_nearest [where r = "1000" and e = "9" and k = "8796093022208000"]
    by (simp add: number_of_count_def)
  have s2: "number_of_literal 30 = Fin 30"
    using round_double_nearest [where r = "30" and e = "4" and k = "8444249301319680"]
    by (simp add: number_of_literal_def)
  have s3: "per_million (Fin 30) = Fin (8854437155380585 / 2 ^ 68)"
    using round_double_nearest [where r = "30 / 1000000" and e = "-16" and k = "8854437155380585"]
    by simp
  have s4: "times_number (Fin 1000) (Fin (8854437155380585 / 2 ^ 68)) = Fin (8646911284551353 / 2 ^ 58)"
    using round_double_nearest [where r = "1000 * (8854437155380585 / 2 ^ 68)" and e = "-6" and k = "8646911284551353"]
    by simp
  have s5: "number_of_count 500 = Fin 500"
    using round_double_nearest [where r = "500" and e = "8" and k = "8796093022208000"]
    by (simp add: number_of_count_def)
  have s6: "number_of_literal 60 = Fin 60"
    using round_double_nearest [where r = "60" and e = "5" and k = "8444249301319680"]
    by (simp add: number_of_literal_def)
  have s7: "per_million (Fin 60) = Fin (8854437155380585 / 2 ^ 67)"
    using round_double_nearest [where r = "60 / 1000000" and e = "-15" and k = "8854437155380585"]
    by simp
  have s8: "times_number (Fin 500) (Fin (8854437155380585 / 2 ^ 67)) = Fin (8646911284551353 / 2 ^ 58)"
    using round_double_nearest [where r = "500 * (8854437155380585 / 2 ^ 67)" and e = "-6" and k = "8646911284551353"]
    by simp
  have s9: "plus_number (Fin (8646911284551353 / 2 ^ 58)) (Fin (8646911284551353 / 2 ^ 58)) = Fin (8646911284551353 / 2 ^ 57)"
    using round_double_nearest [where r = "(8646911284551353 / 2 ^ 58) + (8646911284551353 / 2 ^ 58)" and e = "-5" and k = "8646911284551353"]
    by simp
  have s10: "number_of_literal (60000000000000005 / 1000000000000000000) = Fin (8646911284551353 / 2 ^ 57)"
    using round_double_nearest [where r = "60000000000000005 / 1000000000000000000" and e = "-5" and k = "8646911284551353"]
    by (simp add: number_of_literal_def)
  have s11: "number_of_literal (6 / 100) = Fin (1080863910568919 / 2 ^ 54)"
    using round_double_nearest [where r = "6 / 100" and e = "-5" and k = "8646911284551352"]
    by (simp add: number_of_literal_def)
  show "spec_cost gpt_4
     \<lparr>input_tokens = Some 1000, output_tokens = Some 500,
      cache_creation_input_tokens = None, cache_read_input_tokens = None,
      total_tokens = None\<rparr> = number_of_literal (60000000000000005 / 1000000000000000000)"
    unfolding spec_cost_def gpt_4_def
    by (simp only: pricing.select_convs usage.select_convs option.case Let_def tokens_def rate_def s1 s2 s3 s4 s5 s6 s7 s8 s9 s10 s11)
  show "number_of_literal (60000000000000005 / 1000000000000000000) \<noteq> number_of_literal (6 / 100)"
    by (simp only: s10 s11 number.inject, simp)
qed

lemma Gemini_flash_example:
  "spec_cost gemini_1_5_flash
     \<lparr>input_tokens = Some 1000, output_tokens = Some 500,
      cache_creation_input_tokens = None, cache_read_input_tokens = None,
      total_tokens = None\<rparr> = number_of_literal (8750000000000001 / 10000000000000000000)"
proof -
  have s1: "number_of_count 1000 = Fin 1000"
    using round_double_nearest [where r = "1000" and e = "9" and k = "8796093022208000"]
    by (simp add: number_of_count_def)
  have s2: "number_of_literal (35 / 100) = Fin (3152519739159347 / 2 ^ 53)"
    using round_double_nearest [where r = "35 / 100" and e = "-2" and k = "6305039478318694"]
    by (simp add: number_of_literal_def)
  have s3: "per_million (Fin (3152519739159347 / 2 ^ 53)) = Fin (6611313076017503 / 2 ^ 74)"
    using round_double_nearest [where r = "(3152519739159347 / 2 ^ 53) / 1000000" and e = "-22" and k = "6611313076017503"]
    by simp
  have s4: "times_number (Fin 1000) (Fin (6611313076017503 / 2 ^ 74)) = Fin (6456360425798343 / 2 ^ 64)"
    using round_double_nearest [where r = "1000 * (6611313076017503 / 2 ^ 74)" and e = "-12" and k = "6456360425798343"]
    by simp
  have s5: "number_of_count 500 = Fin 500"
    using round_double_nearest [where r = "500" and e = "8" and k = "8796093022208000"]
    by (simp add: number_of_count_def)
  have s6: "number_of_literal (105 / 100) = Fin (4728779608739021 / 2 ^ 52)"
    using round_double_nearest [where r = "105 / 100" and e = "0" and k = "4728779608739021"]
    by (simp add: number_of_literal_def)
  have s7: "per_million (Fin (4728779608739021 / 2 ^ 52)) = Fin (619810600876641 / 2 ^ 69)"
    using round_double_nearest [where r = "(4728779608739021 / 2 ^ 52) / 1000000" and e = "-20" and k = "4958484807013128"]
    by simp
  have s8: "times_number (Fin 500) (Fin (619810600876641 / 2 ^ 69)) = Fin (2421135159674379 / 2 ^ 62)"
    using round_double_nearest [where r = "500 * (619810600876641 / 2 ^ 69)" and e = "-11" and k = "4842270319348758"]
    by simp
  have s9: "plus_number (Fin (6456360425798343 / 2 ^ 64)) (Fin (2421135159674379 / 2 ^ 62)) = Fin (4035225266123965 / 2 ^ 62)"
    using round_double_eval [where r = "(6456360425798343 / 2 ^ 64) + (2421135159674379 / 2 ^ 62)" and e = "-11" and k = "8070450532247930"]
      round_half_even_tie [where x = "((6456360425798343 / 2 ^ 64) + (2421135159674379 / 2 ^ 62)) / 2 powi (-11 - 52)" and f = "8070450532247929"]
    by simp
  have s10: "number_of_literal (8750000000000001 / 10000000000000000000) = Fin (4035225266123965 / 2 ^ 62)"
    using round_double_nearest [where r = "8750000000000001 / 10000000000000000000" and e = "-11" and k = "8070450532247930"]
    by (simp add: number_of_literal_def)
  show ?thesis
    unfolding spec_cost_def gemini_1_5_flash_def
    by (simp only: pricing.select_convs usage.select_convs option.case Let_def tokens_def rate_def s1 s2 s3 s4 s5 s6 s7 s8 s9 s10)
qed

lemma scenario_values:
  "number_of_literal (1173 / 100000) = Fin (3380942312259579 / 2 ^ 58)"
  "number_of_literal (105 / 10000) = Fin (6052837899185947 / 2 ^ 59)"
  "number_of_literal (60000000000000005 / 1000000000000000000) = Fin (8646911284551353 / 2 ^ 57)"
  "number_of_literal (8750000000000001 / 10000000000000000000) = Fin (4035225266123965 / 2 ^ 62)"
proof -
  have s1: "number_of_literal (1173 / 100000) = Fin (3380942312259579 / 2 ^ 58)"
    using round_double_nearest [where r = "1173 / 100000" and e = "-7" and k = "6761884624519158"]
    by (simp add: number_of_literal_def)
  have s2: "number_of_literal (105 / 10000) = Fin (6052837899185947 / 2 ^ 59)"
    using round_double_nearest [where r = "105 / 10000" and e = "-7" and k = "6052837899185947"]
    by (simp add: number_of_literal_def)
  have s3: "number_of_literal (60000000000000005 / 1000000000000000000) = Fin (8646911284551353 / 2 ^ 57)"
    using round_double_nearest [where r = "60000000000000005 / 1000000000000000000" and e = "-5" and k = "8646911284551353"]
    by (simp add: number_of_literal_def)
  have s4: "number_of_literal (8750000000000001 / 10000000000000000000) = Fin (4035225266123965 / 2 ^ 62)"
    using round_double_nearest [where r = "8750000000000001 / 10000000000000000000" and e = "-11" and k = "8070450532247930"]
    by (simp add: number_of_literal_def)
  show "number_of_literal (1173 / 100000) = Fin (3380942312259579 / 2 ^ 58)"
    "number_of_literal (105 / 10000) = Fin (6052837899185947 / 2 ^ 59)"
    "number_of_literal (60000000000000005 / 1000000000000000000) = Fin (8646911284551353 / 2 ^ 57)"
    "number_of_literal (8750000000000001 / 10000000000000000000) = Fin (4035225266123965 / 2 ^ 62)"
    by (rule s1 s2 s3 s4)+
qed

lemma lookups:
  "getModelPricing (js ''claude-sonnet-4-5-20250929'') = Rates sonnet_4_5"
  "AnthropicProvider_getModelPricing (or_model None (js ''claude-sonnet-4-5-20250929''))
     = Rates sonnet_4_5"
  "getModelPricing (js ''gpt-4'') = Rates gpt_4"
  "OpenAIProvider_getModelPricing (or_model (Some (js ''gpt-4'')) (js ''gpt-4-turbo-preview''))
     = Rates gpt_4"
  "GoogleProvider_getModelPricing (or_model None (js ''gemini-1.5-flash''))
     = Rates gemini_1_5_flash"
  by (simp_all add: getModelPricing_def AnthropicProvider_getModelPricing_def
      OpenAIProvider_getModelPricing_def GoogleProvider_getModelPricing_def or_model_def
      split_colon_first_def table_hit_def obj_get_def ANTHROPIC_PRICING_def OPENAI_PRICING_def
      GOOGLE_PRICING_def object_prototype_names_def)

lemma calculateCost_scenarios:
  "calculateCost
     \<lparr>input_tokens = Some 1000, output_tokens = Some 500,
      cache_creation_input_tokens = Some 200, cache_read_input_tokens = Some 100,
      total_tokens = None\<rparr> (js ''claude-sonnet-4-5-20250929'') = number_of_literal (1173 / 100000)"
  "AnthropicProvider_calculateCost (js ''claude-sonnet-4-5-20250929'')
     \<lparr>input_tokens = Some 1000, output_tokens = Some 500,
      cache_creation_input_tokens = Some 200, cache_read_input_tokens = Some 100,
      total_tokens = None\<rparr> None = number_of_literal (1173 / 100000)"
  "calculateCost
     \<lparr>input_tokens = Some 1000, output_tokens = Some 500,
      cache_creation_input_tokens = None, cache_read_input_tokens = None,
      total_tokens = None\<rparr> (js ''claude-sonnet-4-5-20250929'') = number_of_literal (105 / 10000)"
  "AnthropicProvider_calculateCost (js ''claude-sonnet-4-5-20250929'')
     \<lparr>input_tokens = Some 1000, output_tokens = Some 500,
      cache_creation_input_tokens = None, cache_read_input_tokens = None,
      total_tokens = None\<rparr> None = number_of_literal (105 / 10000)"
  "calculateCost
     \<lparr>input_tokens = Some 1000, output_tokens = Some 500,
      cache_creation_input_tokens = None, cache_read_input_tokens = None,
      total_tokens = None\<rparr> (js ''gpt-4'')
   = number_of_literal (60000000000000005 / 1000000000000000000)"
  "OpenAIProvider_calculateCost (js ''gpt-4-turbo-preview'')
     \<lparr>input_tokens = Some 1000, output_tokens = Some 500,
      cache_creation_input_tokens = None, cache_read_input_tokens = None,
      total_tokens = None\<rparr> (Some (js ''gpt-4''))
   = number_of_literal (60000000000000005 / 1000000000000000000)"
  "GoogleProvider_calculateCost (js ''gemini-1.5-flash'')
     \<lparr>input_tokens = Some 1000, output_tokens = Some 500,
      cache_creation_input_tokens = None, cache_read_input_tokens = None,
      total_tokens = None\<rparr> None
   = number_of_literal (8750000000000001 / 10000000000000000000)"
  by (simp_all only: calculateCost_spec [OF lookups(1)] calculateCost_spec [OF lookups(3)]
      AnthropicProvider_calculateCost_spec [OF lookups(2)]
      OpenAIProvider_calculateCost_spec [OF lookups(4)]
      GoogleProvider_calculateCost_spec [OF lookups(5)]
      Sonnet_scenario_with_cache Sonnet_scenario_without_cache GPT_4_example(1)
      Gemini_flash_example)

lemma member_lookups:
  "getModelPricing (js ''constructor'') = PrototypeMember"
  "AnthropicProvider_getModelPricing (or_model (Some (js ''constructor'')) this_model)
     = PrototypeMember"
  "OpenAIProvider_getModelPricing (or_model (Some (js ''constructor'')) this_model)
     = PrototypeMember"
  "GoogleProvider_getModelPricing (or_model (Some (js ''constructor'')) this_model)
     = PrototypeMember"
  by (simp_all add: getModelPricing_def AnthropicProvider_getModelPricing_def
      OpenAIProvider_getModelPricing_def GoogleProvider_getModelPricing_def or_model_def
      split_colon_first_def table_hit_def obj_get_def ANTHROPIC_PRICING_def OPENAI_PRICING_def
      GOOGLE_PRICING_def object_prototype_names_def)

text \<open>
  C6 at its failing input. For a model name that is a member name of
  \<open>Object.prototype\<close>, here \<open>constructor\<close>, the lookup \<open>TABLE[name]\<close> finds the inherited
  member, which is truthy, and \<open>getModelPricing\<close> returns it in place of the default
  entry. Its \<open>input\<close> and \<open>output\<close> are \<open>undefined\<close>, and the cost is \<open>NaN\<close> for every
  usage, in \<open>review.js\<close> and in each adapter, where the formula gives a number.
\<close>

theorem calculateCost_of_member_name_is_NaN:
  "calculateCost u (js ''constructor'') = NaN
   \<and> AnthropicProvider_calculateCost this_model u (Some (js ''constructor'')) = NaN
   \<and> OpenAIProvider_calculateCost this_model u (Some (js ''constructor'')) = NaN
   \<and> GoogleProvider_calculateCost this_model u (Some (js ''constructor'')) = NaN"
  by (simp add: calculateCost_def AnthropicProvider_calculateCost_def
      OpenAIProvider_calculateCost_def GoogleProvider_calculateCost_def member_lookups
      del: js_Cons js_Nil)

section \<open>Properties of the parser\<close>

lemma filter_throwing_total:
  "(\<And>x. x \<in> set xs \<Longrightarrow> p x = Inr (q x)) \<Longrightarrow> filter_throwing p xs = Inr (filter q xs)"
  by (induction xs) auto

lemma get_member_nonnull:
  "f \<noteq> JNull \<Longrightarrow> \<exists>r. get_member f k = Inr r"
  by (cases f) simp_all

lemma field_truthy_eq:
  "get_member f k = Inr r \<Longrightarrow> field_truthy f k = truthy_opt r"
  by (cases r) (simp_all add: field_truthy_def truthy_opt_def)

lemma finding_is_valid_nonnull:
  assumes "f \<noteq> JNull"
  shows "finding_is_valid f =
     Inr (field_truthy f (js ''severity'') \<and> field_truthy f (js ''file'')
          \<and> field_truthy f (js ''line'') \<and> field_truthy f (js ''title''))"
proof -
  from get_member_nonnull [OF assms]
  obtain r1 where r1: "get_member f (js ''severity'') = Inr r1"
    by blast
  from get_member_nonnull [OF assms]
  obtain r2 where r2: "get_member f (js ''file'') = Inr r2"
    by blast
  from get_member_nonnull [OF assms]
  obtain r3 where r3: "get_member f (js ''line'') = Inr r3"
    by blast
  from get_member_nonnull [OF assms]
  obtain r4 where r4: "get_member f (js ''title'') = Inr r4"
    by blast
  show ?thesis
    unfolding finding_is_valid_def field_truthy_eq [OF r1] field_truthy_eq [OF r2]
      field_truthy_eq [OF r3] field_truthy_eq [OF r4] r1 r2 r3 r4
    by simp
qed

lemma dropWhile_to_first:
  "c \<notin> set pre \<Longrightarrow> dropWhile (\<lambda>x. x \<noteq> c) (pre @ c # rest) = c # rest"
  by (induction pre) auto

lemma match_array_span:
  assumes "91 \<notin> set pre" "93 \<notin> set post"
  shows "match_array (pre @ 91 # mid @ 93 # post) = Some (91 # mid @ [93])"
proof -
  have a: "dropWhile (\<lambda>c. c \<noteq> 91) (pre @ 91 # mid @ 93 # post) = 91 # mid @ 93 # post"
    using assms(1) by (rule dropWhile_to_first)
  have "93 \<notin> set (rev post)"
    using assms(2) by simp
  then have b: "dropWhile (\<lambda>c. c \<noteq> 93) (rev post @ 93 # rev mid) = 93 # rev mid"
    by (rule dropWhile_to_first)
  show ?thesis
    by (simp add: match_array_def a b)
qed

lemma match_array_None:
  assumes "\<And>pre mid post. t \<noteq> pre @ 91 # mid @ 93 # post"
  shows "match_array t = None"
proof (cases "dropWhile (\<lambda>c. c \<noteq> 91) t")
  case Nil
  show ?thesis
    by (simp add: match_array_def Nil)
next
  case (Cons c rest)
  then have c: "c = 91"
    using hd_dropWhile [of "\<lambda>c. c \<noteq> 91" t] by auto
  have t: "t = takeWhile (\<lambda>c. c \<noteq> 91) t @ 91 # rest"
    using Cons c takeWhile_dropWhile_id [of "\<lambda>c. c \<noteq> 91" t] by simp
  have "93 \<notin> set rest"
  proof
    assume "93 \<in> set rest"
    then obtain mid post where "rest = mid @ 93 # post"
      by (meson split_list)
    with t have "t = takeWhile (\<lambda>c. c \<noteq> 91) t @ 91 # mid @ 93 # post"
      by simp
    with assms show False
      by blast
  qed
  then show ?thesis
    by (simp add: match_array_def Cons)
qed

text \<open>
  C4, as the code has it. When the text's bracket span parses to an array without a
  \<open>null\<close> element, \<open>parseFindings\<close> returns, in order, exactly the elements whose four
  fields \<open>severity\<close>, \<open>file\<close>, \<open>line\<close> and \<open>title\<close> are all present and truthy; every
  other element is dropped by itself.
\<close>

theorem parseFindings_keeps_truthy_elements:
  assumes "match_array t = Some m" and "JSON_parse m = Some (JArr es)" and "JNull \<notin> set es"
  shows "parseFindings t =
     filter (\<lambda>f. field_truthy f (js ''severity'') \<and> field_truthy f (js ''file'')
                  \<and> field_truthy f (js ''line'') \<and> field_truthy f (js ''title'')) es"
proof -
  have "filter_throwing finding_is_valid es =
     Inr (filter (\<lambda>f. field_truthy f (js ''severity'') \<and> field_truthy f (js ''file'')
                       \<and> field_truthy f (js ''line'') \<and> field_truthy f (js ''title'')) es)"
  proof (rule filter_throwing_total)
    fix x assume "x \<in> set es"
    with assms(3) have "x \<noteq> JNull"
      by auto
    then show "finding_is_valid x =
       Inr (field_truthy x (js ''severity'') \<and> field_truthy x (js ''file'')
            \<and> field_truthy x (js ''line'') \<and> field_truthy x (js ''title''))"
      by (rule finding_is_valid_nonnull)
  qed
  with assms(1,2) show ?thesis
    by (simp add: parseFindings_def)
qed

lemma two_elements_parsed:
  \<open>match_array (js ''Found: [{"severity":"HIGH","file":"a.js","line":3,"title":"x"},{"severity":"LOW","file":"b.js","title":"y"}]'')
     = Some (js ''[{"severity":"HIGH","file":"a.js","line":3,"title":"x"},{"severity":"LOW","file":"b.js","title":"y"}]'')\<close>
  \<open>JSON_parse (js ''[{"severity":"HIGH","file":"a.js","line":3,"title":"x"},{"severity":"LOW","file":"b.js","title":"y"}]'')
     = Some (JArr
         [JObj [(js ''severity'', JStr (js ''HIGH'')), (js ''file'', JStr (js ''a.js'')),
                (js ''line'', JNum 3), (js ''title'', JStr (js ''x''))],
          JObj [(js ''severity'', JStr (js ''LOW'')), (js ''file'', JStr (js ''b.js'')),
                (js ''title'', JStr (js ''y''))]])\<close>
  by code_simp+

theorem parseFindings_keeps_truthy_elements_witness:
  \<open>parseFindings (js ''Found: [{"severity":"HIGH","file":"a.js","line":3,"title":"x"},{"severity":"LOW","file":"b.js","title":"y"}]'')
     = [JObj [(js ''severity'', JStr (js ''HIGH'')), (js ''file'', JStr (js ''a.js'')),
              (js ''line'', JNum 3), (js ''title'', JStr (js ''x''))]]\<close>
proof -
  have n: "JNull \<notin> set
         [JObj [(js ''severity'', JStr (js ''HIGH'')), (js ''file'', JStr (js ''a.js'')),
                (js ''line'', JNum 3), (js ''title'', JStr (js ''x''))],
          JObj [(js ''severity'', JStr (js ''LOW'')), (js ''file'', JStr (js ''b.js'')),
                (js ''title'', JStr (js ''y''))]]"
    by simp
  show ?thesis
    unfolding parseFindings_keeps_truthy_elements [OF two_elements_parsed n]
    by (simp add: field_truthy_def)
qed

text \<open>
  C4 as stated fails: an element whose four fields are all present is dropped when one
  of them is falsy, here the line number 0.
\<close>

theorem parseFindings_present_but_falsy_counterexample:
  \<open>JSON_parse (js ''[{"severity":"HIGH","file":"a.js","line":0,"title":"x"}]'')
     = Some (JArr [JObj [(js ''severity'', JStr (js ''HIGH'')), (js ''file'', JStr (js ''a.js'')),
                         (js ''line'', JNum 0), (js ''title'', JStr (js ''x''))]])
   \<and> parseFindings (js ''[{"severity":"HIGH","file":"a.js","line":0,"title":"x"}]'') = []\<close>
  by code_simp

text \<open>
  The elements without a \<open>null\<close> are the ones the theorem speaks of: on a \<open>null\<close>
  element the filter throws, the \<open>catch\<close> returns the empty list, and the valid
  elements beside it are lost.
\<close>

lemma parseFindings_null_element_loses_all:
  \<open>parseFindings (js ''[null,{"severity":"HIGH","file":"a.js","line":3,"title":"x"}]'') = []\<close>
  by code_simp

text \<open>
  C5, as the code has it. \<open>parseFindings\<close> takes the span from the first \<open>[\<close> of the text
  to its last \<open>]\<close>, whatever stands before and after; a text without such a span has no
  match. Without a match, or when the span does not parse to a JSON array, the result is
  the empty list (the function is total: nothing is raised). The body of scenario 5
  parses to exactly one finding.
\<close>

theorem parseFindings_bracket_span:
  \<open>(91 \<notin> set pre \<and> 93 \<notin> set post
      \<longrightarrow> match_array (pre @ 91 # mid @ 93 # post) = Some (91 # mid @ [93]))
   \<and> ((\<forall>pre mid post. t0 \<noteq> pre @ 91 # mid @ 93 # post) \<longrightarrow> match_array t0 = None)
   \<and> (match_array t1 = None \<longrightarrow> parseFindings t1 = [])
   \<and> (match_array t2 = Some m2 \<and> (\<forall>es. JSON_parse m2 \<noteq> Some (JArr es))
      \<longrightarrow> parseFindings t2 = [])
   \<and> parseFindings (js ''Here is the review:\<newline>[{"severity":"HIGH","file":"a.js","line":3,"title":"x","description":"y"}]\<newline>Done.'')
      = [JObj [(js ''severity'', JStr (js ''HIGH'')), (js ''file'', JStr (js ''a.js'')),
               (js ''line'', JNum 3), (js ''title'', JStr (js ''x'')),
               (js ''description'', JStr (js ''y''))]]\<close>
proof -
  have a: "parseFindings t2 = []"
    if "match_array t2 = Some m2" "\<forall>es. JSON_parse m2 \<noteq> Some (JArr es)"
    using that by (auto simp: parseFindings_def split: option.splits json.splits)
  have b: \<open>parseFindings (js ''Here is the review:\<newline>[{"severity":"HIGH","file":"a.js","line":3,"title":"x","description":"y"}]\<newline>Done.'')
      = [JObj [(js ''severity'', JStr (js ''HIGH'')), (js ''file'', JStr (js ''a.js'')),
               (js ''line'', JNum 3), (js ''title'', JStr (js ''x'')),
               (js ''description'', JStr (js ''y''))]]\<close>
    by code_simp
  show ?thesis
    using a b by (auto simp: match_array_span match_array_None parseFindings_def)
qed

theorem parseFindings_bracket_span_witness:
  \<open>91 \<notin> set (js ''Here is the review:\<newline>'') \<and> 93 \<notin> set (js ''\<newline>Done.'')
   \<and> match_array (js ''Here is the review:\<newline>[{"severity":"HIGH"}]\<newline>Done.'')
       = Some (js ''[{"severity":"HIGH"}]'')
   \<and> match_array (js ''No issues found.'') = None
   \<and> parseFindings (js ''No issues found.'') = []
   \<and> match_array (js ''see [a] and [b]'') = Some (js ''[a] and [b]'')
   \<and> JSON_parse (js ''[a] and [b]'') = None
   \<and> parseFindings (js ''see [a] and [b]'') = []\<close>
proof -
  have h1: "91 \<notin> set (js ''Here is the review:\<newline>'') \<and> 93 \<notin> set (js ''\<newline>Done.'')"
    by simp
  have h2: "\<forall>pre mid post. js ''No issues found.'' \<noteq> pre @ 91 # mid @ 93 # post"
  proof (intro allI notI)
    fix pre mid post
    assume e: "js ''No issues found.'' = pre @ 91 # mid @ 93 # post"
    have "91 \<in> set (js ''No issues found.'')"
      unfolding e by simp
    then show False
      by simp
  qed
  have h3: "match_array (js ''see [a] and [b]'') = Some (js ''[a] and [b]'')"
    by code_simp
  have h4: "JSON_parse (js ''[a] and [b]'') = None"
    by code_simp
  have h5: \<open>js ''Here is the review:\<newline>'' @ 91 # js ''{"severity":"HIGH"}'' @ 93 # js ''\<newline>Done.''
            = js ''Here is the review:\<newline>[{"severity":"HIGH"}]\<newline>Done.''\<close>
       \<open>91 # js ''{"severity":"HIGH"}'' @ [93] = js ''[{"severity":"HIGH"}]''\<close>
    by simp_all
  from parseFindings_bracket_span
    [of "js ''Here is the review:\<newline>''" "js ''\<newline>Done.''" \<open>js ''{"severity":"HIGH"}''\<close>
        "js ''No issues found.''" "js ''No issues found.''"
        "js ''see [a] and [b]''" "js ''[a] and [b]''"]
  show ?thesis
    using h1 h2 h3 h4 unfolding h5 by simp
qed

text \<open>
  C5 as stated fails: the text below begins with a well-formed array of one valid
  finding, its first array-shaped substring, yet the span up to the last \<open>]\<close> is taken,
  does not parse, and the result is empty.
\<close>

theorem parseFindings_first_array_counterexample:
  \<open>JSON_parse (js ''[{"severity":"HIGH","file":"a.js","line":3,"title":"x"}]'')
     = Some (JArr [JObj [(js ''severity'', JStr (js ''HIGH'')), (js ''file'', JStr (js ''a.js'')),
                         (js ''line'', JNum 3), (js ''title'', JStr (js ''x''))]])
   \<and> parseFindings (js ''[{"severity":"HIGH","file":"a.js","line":3,"title":"x"}] see [1]'')
     = []\<close>
  by code_simp

section \<open>Properties of the severity filter\<close>

lemma map_of_SEVERITY_LEVELS:
  "map_of SEVERITY_LEVELS s = (if s \<in> set validSeverities then Some (severity_rank s) else None)"
  by (simp add: SEVERITY_LEVELS_def validSeverities_def severity_rank_def)

lemma severity_rank_pos: "s \<in> set validSeverities \<Longrightarrow> 1 \<le> severity_rank s"
  by (auto simp: validSeverities_def severity_rank_def)

lemma severity_rank_zero: "s \<notin> set validSeverities \<Longrightarrow> severity_rank s = 0"
  by (auto simp: validSeverities_def severity_rank_def)

lemma threshold_level:
  "t \<in> set validSeverities \<Longrightarrow> obj_get SEVERITY_LEVELS t = Own (severity_rank t)"
  by (simp add: obj_get_def map_of_SEVERITY_LEVELS)

lemma string_severity_test:
  assumes "1 \<le> b"
  shows "(case level_or_zero (Key s) of
            Inl e \<Rightarrow> Inl e
          | Inr severity \<Rightarrow> Inr (greater_equal severity (Own b))) = Inr (b \<le> severity_rank s)"
proof (cases "s \<in> set validSeverities")
  case True
  then show ?thesis
    by (simp add: level_or_zero_def obj_get_def map_of_SEVERITY_LEVELS)
next
  case False
  with assms show ?thesis
    by (simp add: level_or_zero_def obj_get_def map_of_SEVERITY_LEVELS severity_rank_zero)
qed

text \<open>
  With a threshold spelled as one of the four names, and findings whose severity is a
  string, the filter is the ordinal cut: it keeps exactly the findings that rank at
  least as high as the threshold.
\<close>

lemma filterBySeverity_ordinal_cut:
  assumes t: "t \<in> set validSeverities"
    and fs: "\<And>f. f \<in> set fs
               \<Longrightarrow> \<exists>ms s. f = JObj ms \<and> map_of ms (js ''severity'') = Some (JStr s)"
  shows "filterBySeverity t fs = Inr (filter (\<lambda>f. severity_rank t \<le> finding_rank f) fs)"
  unfolding filterBySeverity_def Let_def threshold_level [OF t]
proof (rule filter_throwing_total)
  fix f assume "f \<in> set fs"
  from fs [OF this]
  obtain ms s where f: "f = JObj ms" "map_of ms (js ''severity'') = Some (JStr s)"
    by blast
  have r: "finding_rank (JObj ms) = severity_rank s"
    by (simp add: finding_rank_def f(2) del: js_Cons js_Nil)
  show "(case get_member f (js ''severity'') of
           Inl e \<Rightarrow> Inl e
         | Inr v \<Rightarrow>
             (case level_or_zero (to_key_opt v) of
                Inl e \<Rightarrow> Inl e
              | Inr severity \<Rightarrow> Inr (greater_equal severity (Own (severity_rank t)))))
        = Inr (severity_rank t \<le> finding_rank f)"
    using string_severity_test [OF severity_rank_pos [OF t], of s]
    by (simp add: f r to_key_opt_def del: js_Cons js_Nil)
qed

lemma accepted_threshold_not_inherited:
  "severityThreshold_accepted t \<Longrightarrow> t \<notin> set object_prototype_names"
  by (auto simp: severityThreshold_accepted_def validSeverities_def object_prototype_names_def
      toUpperCase_def upper_unit_def)

lemma accepted_threshold_level:
  assumes "severityThreshold_accepted t"
  shows "obj_get SEVERITY_LEVELS t =
     (if t \<in> set validSeverities then Own (severity_rank t) else Undefined)"
  using accepted_threshold_not_inherited [OF assms]
  by (simp add: obj_get_def map_of_SEVERITY_LEVELS)

text \<open>
  A finding whose severity is a string outside the four names is excluded under every
  threshold that \<open>validateConfig\<close> accepts.
\<close>

lemma unknown_string_severity_excluded:
  assumes t: "severityThreshold_accepted t"
    and s: "s \<notin> set validSeverities"
    and f: "map_of ms (js ''severity'') = Some (JStr s)"
  shows "filterBySeverity t [JObj ms] = Inr []"
proof (cases "t \<in> set validSeverities")
  case True
  have "filterBySeverity t [JObj ms] =
          Inr (filter (\<lambda>f. severity_rank t \<le> finding_rank f) [JObj ms])"
    using f by (intro filterBySeverity_ordinal_cut [OF True]) auto
  moreover have "finding_rank (JObj ms) = 0"
    by (simp add: finding_rank_def f severity_rank_zero [OF s] del: js_Cons js_Nil)
  ultimately show ?thesis
    using severity_rank_pos [OF True] by simp
next
  case False
  have g: "greater_equal r Undefined = False" for r
    by (cases r) simp_all
  have "\<exists>r. level_or_zero (Key s) = Inr r"
    by (simp add: level_or_zero_def split: property.splits)
  then obtain r where "level_or_zero (Key s) = Inr r"
    by blast
  then show ?thesis
    by (simp add: filterBySeverity_def accepted_threshold_level [OF t] False f to_key_opt_def g
        del: js_Cons js_Nil)
qed

text \<open>
  A severity that is an object with a member \<open>toString\<close> cannot be made a property
  name: the filter throws, and the run ends in the \<open>catch\<close> of \<open>main\<close>.
\<close>

lemma filterBySeverity_throws:
  \<open>filterBySeverity (js ''LOW'')
     (parseFindings (js ''[{"severity":{"toString":1},"file":"a.js","line":3,"title":"x"}]''))
   = Inl TypeError\<close>
  by code_simp

text \<open>
  C7 at its failing input. \<open>validateConfig\<close> accepts the threshold \<open>medium\<close>, comparing
  its upper case, and \<open>filterBySeverity\<close> looks the threshold up as written: the level is
  \<open>undefined\<close>, every comparison is false, and a critical and a high finding are both
  dropped.
\<close>

theorem filterBySeverity_lower_case_threshold_drops_all:
  "severityThreshold_accepted (js ''medium'')
   \<and> filterBySeverity (js ''medium'')
        [JObj [(js ''severity'', JStr (js ''CRITICAL'')), (js ''file'', JStr (js ''a.js'')),
               (js ''line'', JNum 3), (js ''title'', JStr (js ''x''))],
         JObj [(js ''severity'', JStr (js ''HIGH'')), (js ''file'', JStr (js ''a.js'')),
               (js ''line'', JNum 4), (js ''title'', JStr (js ''y''))]] = Inr []"
  by (simp add: severityThreshold_accepted_def validSeverities_def toUpperCase_def upper_unit_def
      filterBySeverity_def obj_get_def SEVERITY_LEVELS_def object_prototype_names_def
      level_or_zero_def to_key_opt_def)

text \<open>
  C10 at its failing input. A finding whose severity is the array \<open>["HIGH"]\<close> is accepted
  by the parser; as a property name the array is the string \<open>HIGH\<close>, so the finding
  ranks 3 and passes the threshold \<open>LOW\<close>; it reaches the counting with a severity that
  is none of the four names, and is counted under no severity.
\<close>

theorem array_severity_passes_filter:
  \<open>parseFindings (js ''[{"severity":["HIGH"],"file":"a.js","line":3,"title":"x"}]'')
     = [JObj [(js ''severity'', JArr [JStr (js ''HIGH'')]), (js ''file'', JStr (js ''a.js'')),
              (js ''line'', JNum 3), (js ''title'', JStr (js ''x''))]]
   \<and> severityThreshold_accepted (js ''LOW'')
   \<and> filterBySeverity (js ''LOW'')
        [JObj [(js ''severity'', JArr [JStr (js ''HIGH'')]), (js ''file'', JStr (js ''a.js'')),
               (js ''line'', JNum 3), (js ''title'', JStr (js ''x''))]]
     = Inr [JObj [(js ''severity'', JArr [JStr (js ''HIGH'')]), (js ''file'', JStr (js ''a.js'')),
                  (js ''line'', JNum 3), (js ''title'', JStr (js ''x''))]]
   \<and> countBySeverity
        [JObj [(js ''severity'', JArr [JStr (js ''HIGH'')]), (js ''file'', JStr (js ''a.js'')),
               (js ''line'', JNum 3), (js ''title'', JStr (js ''x''))]]
     = Inr \<lparr>CRITICAL = 0, HIGH = 0, MEDIUM = 0, LOW = 0\<rparr>\<close>
  by code_simp

section \<open>Properties of the provider factory\<close>

text \<open>
  C8. \<open>createProvider\<close> fails with the credential error for an absent or empty key,
  whatever the provider name. With a key, the name is compared in lower case with the
  names and their short aliases: a name that is none of them fails with
  \<open>Unknown provider: <name>\<close> followed by the supported set; \<open>google\<close> or \<open>gemini\<close>
  without a project id fails with its own error, which contains \<open>requires projectId\<close>;
  every other recognised name yields the adapter of its family.
\<close>

theorem createProvider_error_contract:
  "(apiKey = None \<or> apiKey = Some []
      \<longrightarrow> createProvider name_a apiKey model_a options_a
          = Inl (Error (js ''API key is required for provider: '' @ name_a)))
   \<and> (key \<noteq> []
        \<and> toLowerCase name_b \<notin> set (map js [''anthropic'', ''claude'', ''openai'', ''gpt'',
                                              ''google'', ''gemini''])
      \<longrightarrow> createProvider name_b (Some key) model_b options_b
          = Inl (Error (js ''Unknown provider: '' @ name_b
                        @ js ''. Supported: anthropic, openai, google'')))
   \<and> (key \<noteq> [] \<and> (toLowerCase name_c = js ''google'' \<or> toLowerCase name_c = js ''gemini'')
        \<and> (projectId options_c = None \<or> projectId options_c = Some [])
      \<longrightarrow> createProvider name_c (Some key) model_c options_c
          = Inl (Error (js ''Google provider requires projectId option'')))
   \<and> (key \<noteq> [] \<and> (toLowerCase name_d = js ''anthropic'' \<or> toLowerCase name_d = js ''claude'')
      \<longrightarrow> createProvider name_d (Some key) model_d options_d
          = Inr (AnthropicProvider key (or_model model_d (js ''claude-sonnet-4-5-20250929''))))
   \<and> (key \<noteq> [] \<and> (toLowerCase name_e = js ''openai'' \<or> toLowerCase name_e = js ''gpt'')
      \<longrightarrow> createProvider name_e (Some key) model_e options_e
          = Inr (OpenAIProvider key (or_model model_e (js ''gpt-4-turbo-preview''))))
   \<and> (key \<noteq> [] \<and> (toLowerCase name_f = js ''google'' \<or> toLowerCase name_f = js ''gemini'')
        \<and> projectId options_f = Some project \<and> project \<noteq> []
      \<longrightarrow> createProvider name_f (Some key) model_f options_f
          = Inr (GoogleProvider key (or_model model_f (js ''gemini-1.5-pro'')) project
                   (or_model (location options_f) (js ''us-central1''))))
   \<and> str_includes (js ''Google provider requires projectId option'') (js ''requires projectId'')"
  by (auto simp: createProvider_def truthy_string_def Let_def)

theorem createProvider_error_contract_witness:
  "createProvider (js ''anthropic'') (Some []) (Some (js ''test-model''))
      \<lparr>projectId = None, location = None\<rparr>
     = Inl (Error (js ''API key is required for provider: anthropic''))
   \<and> createProvider (js ''unknown'') (Some (js ''test-key'')) (Some (js ''test-model''))
      \<lparr>projectId = None, location = None\<rparr>
     = Inl (Error (js ''Unknown provider: unknown. Supported: anthropic, openai, google''))
   \<and> createProvider (js ''google'') (Some (js ''test-key'')) (Some (js ''test-model''))
      \<lparr>projectId = None, location = None\<rparr>
     = Inl (Error (js ''Google provider requires projectId option''))
   \<and> createProvider (js ''Claude'') (Some (js ''test-key'')) (Some (js ''test-model''))
      \<lparr>projectId = None, location = None\<rparr>
     = Inr (AnthropicProvider (js ''test-key'') (js ''test-model''))
   \<and> createProvider (js ''GPT'') (Some (js ''test-key'')) None
      \<lparr>projectId = None, location = None\<rparr>
     = Inr (OpenAIProvider (js ''test-key'') (js ''gpt-4-turbo-preview''))
   \<and> createProvider (js ''Gemini'') (Some (js ''test-key'')) None
      \<lparr>projectId = Some (js ''test-project''), location = None\<rparr>
     = Inr (GoogleProvider (js ''test-key'') (js ''gemini-1.5-pro'') (js ''test-project'')
              (js ''us-central1''))"
  using createProvider_error_contract
    [where apiKey = "Some []" and name_a = "js ''anthropic''"
       and model_a = "Some (js ''test-model'')"
       and options_a = "\<lparr>projectId = None, location = None\<rparr>"
       and key = "js ''test-key''"
       and name_b = "js ''unknown''" and model_b = "Some (js ''test-model'')"
       and options_b = "\<lparr>projectId = None, location = None\<rparr>"
       and name_c = "js ''google''" and model_c = "Some (js ''test-model'')"
       and options_c = "\<lparr>projectId = None, location = None\<rparr>"
       and name_d = "js ''Claude''" and model_d = "Some (js ''test-model'')"
       and options_d = "\<lparr>projectId = None, location = None\<rparr>"
       and name_e = "js ''GPT''" and model_e = None
       and options_e = "\<lparr>projectId = None, location = None\<rparr>"
       and name_f = "js ''Gemini''" and model_f = None
       and options_f = "\<lparr>projectId = Some (js ''test-project''), location = None\<rparr>"
       and project = "js ''test-project''"]
  by (simp add: toLowerCase_def lower_unit_def or_model_def)

section \<open>Properties of the retry loop\<close>

text \<open>
  When every attempt from \<open>a\<close> on fails and at least one is left, the loop makes the
  attempts \<open>a\<close> to \<open>retries\<close>, sleeps \<open>2^k\<close> seconds after each failed attempt \<open>k\<close> but the
  last, and rejects with the adapter's name and the last error's message.
\<close>

lemma review_loop_all_fail:
  assumes "\<And>k. a \<le> k \<Longrightarrow> k \<le> retries \<Longrightarrow> api k = Fails (msg k)"
    and "a \<le> retries"
  shows "review_loop name retries api a =
     (concat (map (\<lambda>k. [ApiCall k, Sleep (2 ^ k * 1000)]) [a..<retries]) @ [ApiCall retries],
      Rejected (Error (name @ js '' API failed after '' @ show_nat retries
                       @ js '' attempts: '' @ msg retries)))"
  using assms
proof (induction "retries - a" arbitrary: a)
  case 0
  then have "a = retries"
    by simp
  with 0 show ?case
    by (subst review_loop.simps) (simp del: js_Cons js_Nil)
next
  case (Suc n)
  then have lt: "a < retries"
    by simp
  have ih: "review_loop name retries api (Suc a) =
     (concat (map (\<lambda>k. [ApiCall k, Sleep (2 ^ k * 1000)]) [Suc a..<retries])
        @ [ApiCall retries],
      Rejected (Error (name @ js '' API failed after '' @ show_nat retries
                       @ js '' attempts: '' @ msg retries)))"
    using Suc by (intro Suc.hyps(1)) auto
  have api: "api a = Fails (msg a)"
    using Suc.prems lt by simp
  have up: "[a..<retries] = a # [Suc a..<retries]"
    using lt by (simp add: upt_rec)
  show ?case
    using lt by (subst review_loop.simps) (simp add: api ih up del: js_Cons js_Nil)
qed

text \<open>With the default of three retries and a vendor that is down, the Anthropic
  adapter calls three times, sleeps 2 and 4 seconds in between, and rejects.\<close>

lemma AnthropicProvider_review_vendor_down:
  "AnthropicProvider_review None (\<lambda>k. Fails (js ''down'')) =
    ([ApiCall 1, Sleep 2000, ApiCall 2, Sleep 4000, ApiCall 3],
     Rejected (Error (js ''Anthropic API failed after 3 attempts: down'')))"
  by (simp add: AnthropicProvider_review_def retries_or_default_def
      review_loop_all_fail [where msg = "\<lambda>k. js ''down''"] show_nat.simps upt_rec)

text \<open>
  C3 at its failing input. With \<open>retries = 0\<close> the loop body never runs: whatever the
  vendor would do, each adapter makes no attempt and its promise resolves with
  \<open>undefined\<close>; nothing is thrown.
\<close>

theorem review_zero_retries_resolves_undefined:
  "AnthropicProvider_review (Some 0) api = ([], Resolved None)
   \<and> OpenAIProvider_review (Some 0) api = ([], Resolved None)
   \<and> GoogleProvider_review (Some 0) api = ([], Resolved None)"
  by (simp add: AnthropicProvider_review_def OpenAIProvider_review_def GoogleProvider_review_def
      retries_or_default_def review_loop.simps [of _ 0])

section \<open>Properties of the orchestrator\<close>

lemma review_loop_events:
  "review_loop name retries api a = (es, out)
   \<Longrightarrow> \<forall>e \<in> set es. (\<exists>k. e = ApiCall k) \<or> (\<exists>d. e = Sleep d)"
proof (induction name retries api a arbitrary: es out rule: review_loop.induct)
  case (1 name retries api attempt)
  show ?case
  proof (cases "attempt \<le> retries")
    case False
    with "1.prems" show ?thesis
      by (subst (asm) review_loop.simps) simp
  next
    case le: True
    show ?thesis
    proof (cases "api attempt")
      case (Returns r)
      with le "1.prems" show ?thesis
        by (subst (asm) review_loop.simps) auto
    next
      case (Fails m)
      show ?thesis
      proof (cases "attempt = retries")
        case True
        with le Fails "1.prems" show ?thesis
          by (subst (asm) review_loop.simps) auto
      next
        case False
        obtain es' out' where r: "review_loop name retries api (attempt + 1) = (es', out')"
          by (cases "review_loop name retries api (attempt + 1)")
        from "1.IH" [OF le Fails False r]
        have ih: "\<forall>e\<in>set es'. (\<exists>k. e = ApiCall k) \<or> (\<exists>d. e = Sleep d)" .
        from "1.prems" le Fails False r
        have "es = ApiCall attempt # Sleep (2 ^ attempt * 1000) # es'"
          by (subst (asm) review_loop.simps) auto
        with ih show ?thesis
          by auto
      qed
    qed
  qed
qed

lemma outputs_of_append: "outputs_of (xs @ ys) = outputs_of xs @ outputs_of ys"
  by (induction xs rule: outputs_of.induct) auto

lemma outputs_of_calls:
  "\<forall>e \<in> set es. (\<exists>k. e = ApiCall k) \<or> (\<exists>d. e = Sleep d) \<Longrightarrow> outputs_of es = []"
  by (induction es rule: outputs_of.induct) auto

lemma callLLM_events:
  assumes "callLLM p w = (es, r)"
  shows "outputs_of es = []" "PostErrorComment \<notin> set es" "PostNoFilesComment \<notin> set es"
proof -
  obtain es' out where r: "review p None (w_api w) = (es', out)"
    by (cases "review p None (w_api w)")
  with assms have e: "es = es'"
    by (simp add: callLLM_def)
  from r have "\<forall>e \<in> set es'. (\<exists>k. e = ApiCall k) \<or> (\<exists>d. e = Sleep d)"
    by (cases p)
      (auto simp: AnthropicProvider_review_def OpenAIProvider_review_def
         GoogleProvider_review_def dest!: review_loop_events)
  with e show "outputs_of es = []" "PostErrorComment \<notin> set es" "PostNoFilesComment \<notin> set es"
    by (auto simp: outputs_of_calls)
qed

lemma on_error_outputs:
  "outputs_of (on_error cfg) = [error_record]"
  "PostErrorComment \<in> set (on_error cfg)"
  "PostNoFilesComment \<notin> set (on_error cfg)"
  by (simp_all add: on_error_def setOutputs_def error_record_def del: js_Cons js_Nil)

lemma report_outputs:
  "(outputs_of (report cfg w r) = [error_record] \<and> PostErrorComment \<in> set (report cfg w r))
   \<or> ((\<exists>n c h cost. outputs_of (report cfg w r) = [success_record n c h cost])
       \<and> PostErrorComment \<notin> set (report cfg w r))"
  unfolding report_def Let_def
  by (auto simp: on_error_outputs setOutputs_def success_record_def outputs_of_append
      split: sum.splits option.splits simp del: js_Cons js_Nil)

lemma report_no_files: "PostNoFilesComment \<notin> set (report cfg w r)"
  unfolding report_def Let_def
  by (auto simp: on_error_outputs setOutputs_def
      split: sum.splits option.splits simp del: js_Cons js_Nil)

text \<open>The four ways a run can go: into the \<open>catch\<close> before a provider exists, out at
  the no-files return, into the \<open>catch\<close> from the provider call, or on to the report.\<close>

lemma main_cases:
  "main cfg w = on_error cfg
   \<or> main cfg w = PostNoFilesComment # setOutputs cfg no_files_record
   \<or> (\<exists>p es e. callLLM p w = (es, Inl e)
         \<and> main cfg w = ProviderCreated p # es @ on_error cfg)
   \<or> (\<exists>p es r. callLLM p w = (es, Inr r)
         \<and> main cfg w = ProviderCreated p # es @ report cfg w r)"
proof (cases "w_validateConfig w")
  case Some
  then show ?thesis
    by (simp add: main_def)
next
  case v: None
  show ?thesis
  proof (cases "w_chdir w")
    case Some
    with v show ?thesis
      by (simp add: main_def)
  next
    case c: None
    show ?thesis
    proof (cases "w_getPRChanges w")
      case Inl
      with v c show ?thesis
        by (simp add: main_def)
    next
      case (Inr dc)
      obtain diff changedFiles where dc: "dc = (diff, changedFiles)"
        by (cases dc)
      show ?thesis
      proof (cases "filterFiles changedFiles = []")
        case True
        with v c Inr dc show ?thesis
          by (simp add: main_def no_files_record_def del: js_Cons js_Nil)
      next
        case f: False
        show ?thesis
        proof (cases "w_readGuidelines w")
          case Inl
          with v c Inr dc f show ?thesis
            by (simp add: main_def)
        next
          case g: (Inr guidelines)
          show ?thesis
          proof (cases "createProvider (cfg_provider cfg) (cfg_apiKey cfg) (cfg_model cfg)
                          \<lparr>projectId = cfg_googleProjectId cfg,
                           location = Some (cfg_googleLocation cfg)\<rparr>")
            case Inl
            with v c Inr dc f g show ?thesis
              by (simp add: main_def)
          next
            case p: (Inr llmProvider)
            obtain es r where l: "callLLM llmProvider w = (es, r)"
              by (cases "callLLM llmProvider w")
            show ?thesis
            proof (cases r)
              case (Inl e)
              with v c Inr dc f g p l
              have "main cfg w = ProviderCreated llmProvider # es @ on_error cfg"
                by (simp add: main_def)
              with l Inl show ?thesis
                by blast
            next
              case r: (Inr response)
              with v c Inr dc f g p l
              have "main cfg w = ProviderCreated llmProvider # es @ report cfg w response"
                by (simp add: main_def)
              with l r show ?thesis
                by blast
            qed
          qed
        qed
      qed
    qed
  qed
qed

text \<open>
  C2, as the code has it. Every run hands exactly one record to \<open>setOutputs\<close>. A run
  that ends in an error (it posts the error comment) hands over \<open>completed: false\<close> and
  nothing else; a run without reviewable files hands over \<open>completed: true\<close> and three
  zero counts, without a cost estimate; every other run hands over all five fields.
\<close>

theorem main_outputs:
  "(PostErrorComment \<in> set (main cfg w) \<and> outputs_of (main cfg w) = [error_record])
   \<or> (PostNoFilesComment \<in> set (main cfg w) \<and> PostErrorComment \<notin> set (main cfg w)
       \<and> outputs_of (main cfg w) = [no_files_record])
   \<or> (PostNoFilesComment \<notin> set (main cfg w) \<and> PostErrorComment \<notin> set (main cfg w)
       \<and> (\<exists>n c h cost. outputs_of (main cfg w) = [success_record n c h cost]))"
proof -
  from main_cases [of cfg w]
  consider (err) "main cfg w = on_error cfg"
    | (nofiles) "main cfg w = PostNoFilesComment # setOutputs cfg no_files_record"
    | (llm_err) p es e where "callLLM p w = (es, Inl e)"
        "main cfg w = ProviderCreated p # es @ on_error cfg"
    | (rep) p es r where "callLLM p w = (es, Inr r)"
        "main cfg w = ProviderCreated p # es @ report cfg w r"
    by blast
  then show ?thesis
  proof cases
    case err
    then show ?thesis
      by (simp add: on_error_outputs)
  next
    case nofiles
    then show ?thesis
      by (simp add: setOutputs_def)
  next
    case llm_err
    with callLLM_events [OF llm_err(1)] show ?thesis
      by (simp add: on_error_outputs outputs_of_append)
  next
    case rep
    with callLLM_events [OF rep(1)] report_outputs [of cfg w r] report_no_files [of cfg w r]
    show ?thesis
      by (auto simp: outputs_of_append)
  qed
qed

text \<open>
  C2 as stated fails: in the run below the vendor is down, the run ends in the \<open>catch\<close>,
  and the only record written is \<open>completed: false\<close>, without the counts and the cost.
\<close>

theorem main_failing_run_counterexample:
  "outputs_of (main
     \<lparr>cfg_provider = js ''anthropic'', cfg_apiKey = Some (js ''test-key-0123''),
      cfg_model = None, cfg_severityThreshold = js ''LOW'', cfg_failOnErrors = False,
      cfg_dryRun = False, cfg_googleProjectId = None, cfg_googleLocation = js ''us-central1'',
      env_GITHUB_OUTPUT = True\<rparr>
     \<lparr>w_validateConfig = None, w_chdir = None,
      w_getPRChanges = Inr (js ''diff'', [js ''src/index.js'']),
      w_readGuidelines = Inr [],
      w_api = (\<lambda>k. Fails (js ''down'')),
      w_printFindings = None, w_postReviewComments = None, w_postSummaryComment = None\<rparr>)
   = [[(js ''completed'', OBool False)]]"
  by code_simp

text \<open>
  C9. When validation and the fetch succeed and no changed file is reviewable, the run
  posts the no-files comment and writes \<open>completed: true\<close> with zero counts, and does
  nothing else: no provider is created and no vendor call is made.
\<close>

theorem main_no_reviewable_files:
  assumes "w_validateConfig w = None" and "w_chdir w = None"
    and "w_getPRChanges w = Inr (diff, changedFiles)" and "filterFiles changedFiles = []"
  shows "main cfg w =
     [PostNoFilesComment,
      SetOutputs [(js ''completed'', OBool True), (js ''findings_count'', ONat 0),
                  (js ''critical_count'', ONat 0), (js ''high_count'', ONat 0)]
                 (env_GITHUB_OUTPUT cfg)]"
  using assms by (simp add: main_def setOutputs_def del: js_Cons js_Nil)

lemma nothing_reviewable:
  "filterFiles [js ''package-lock.json'', js ''config/.env'', js ''dist/app.js'',
                js ''.github/workflows/ci.yml'', js ''docs/API_Key.txt'', js ''logo.png''] = []"
  by code_simp

theorem main_no_reviewable_files_witness:
  "main
     \<lparr>cfg_provider = js ''anthropic'', cfg_apiKey = Some (js ''test-key-0123''),
      cfg_model = None, cfg_severityThreshold = js ''LOW'', cfg_failOnErrors = False,
      cfg_dryRun = False, cfg_googleProjectId = None, cfg_googleLocation = js ''us-central1'',
      env_GITHUB_OUTPUT = True\<rparr>
     \<lparr>w_validateConfig = None, w_chdir = None,
      w_getPRChanges = Inr (js ''diff'',
        [js ''package-lock.json'', js ''config/.env'', js ''dist/app.js'',
         js ''.github/workflows/ci.yml'', js ''docs/API_Key.txt'', js ''logo.png'']),
      w_readGuidelines = Inr [],
      w_api = (\<lambda>k. Fails (js ''down'')),
      w_printFindings = None, w_postReviewComments = None, w_postSummaryComment = None\<rparr>
   = [PostNoFilesComment,
      SetOutputs [(js ''completed'', OBool True), (js ''findings_count'', ONat 0),
                  (js ''critical_count'', ONat 0), (js ''high_count'', ONat 0)] True]"
  by (simp add: main_no_reviewable_files [OF _ _ _ nothing_reviewable] del: js_Cons js_Nil)

end
